theory Spec2Isabelle
  imports Main "HOL-Library.Multiset"
begin

section \<open>Go values used by the server\<close>

text \<open>
  A Go \<^verbatim>\<open>string\<close> is a sequence of bytes, which is what \<^typ>\<open>string\<close> is here:
  \<^term>\<open>length\<close> is Go's \<^verbatim>\<open>len\<close>. A \<^verbatim>\<open>time.Time\<close> is an instant, modelled as the
  number of nanoseconds since the Unix epoch; it is an unbounded integer because the
  instants the server receives come from RFC 3339 text (years 0 to 9999) or from its own
  clock, all of which have a millisecond count that fits 64 bits.
\<close>

type_synonym Time = int

definition byte :: "char \<Rightarrow> nat" where
  "byte c = of_char c"

subsection \<open>\<^verbatim>\<open>strings.IndexByte\<close>, \<^verbatim>\<open>strings.Contains\<close>\<close>

fun IndexByte :: "string \<Rightarrow> char \<Rightarrow> int" where
  "IndexByte [] c = - 1"
| "IndexByte (x # xs) c =
     (if x = c then 0
      else (let i = IndexByte xs c in if i < 0 then - 1 else i + 1))"

fun HasPrefix :: "string \<Rightarrow> string \<Rightarrow> bool" where
  "HasPrefix s [] = True"
| "HasPrefix [] (p # ps) = False"
| "HasPrefix (c # cs) (p # ps) = (c = p \<and> HasPrefix cs ps)"

fun Contains :: "string \<Rightarrow> string \<Rightarrow> bool" where
  "Contains [] sub = HasPrefix [] sub"
| "Contains (c # cs) sub = (HasPrefix (c # cs) sub \<or> Contains cs sub)"

subsection \<open>\<^verbatim>\<open>utf8.RuneCountInString\<close>\<close>

text \<open>
  The standard library counts one rune for every well-formed UTF-8 sequence and one rune
  for every byte that does not start one. \<open>first\<close> is the library's table of lead
  bytes: the length of the sequence and the range accepted for its second byte.
\<close>

definition first :: "nat \<Rightarrow> (nat \<times> nat \<times> nat) option" where
  "first c =
     (if 0xC2 \<le> c \<and> c \<le> 0xDF then Some (2, 0x80, 0xBF)
      else if c = 0xE0 then Some (3, 0xA0, 0xBF)
      else if c = 0xED then Some (3, 0x80, 0x9F)
      else if 0xE1 \<le> c \<and> c \<le> 0xEF then Some (3, 0x80, 0xBF)
      else if c = 0xF0 then Some (4, 0x90, 0xBF)
      else if 0xF1 \<le> c \<and> c \<le> 0xF3 then Some (4, 0x80, 0xBF)
      else if c = 0xF4 then Some (4, 0x80, 0x8F)
      else None)"

definition between :: "nat \<Rightarrow> nat \<Rightarrow> char \<Rightarrow> bool" where
  "between lo hi c = (lo \<le> byte c \<and> byte c \<le> hi)"

text \<open>The number of bytes the rune starting with byte \<open>c\<close>, followed by \<open>rest\<close>, takes.\<close>

definition rune_width :: "char \<Rightarrow> string \<Rightarrow> nat" where
  "rune_width c rest =
     (if byte c < 0x80 then 1
      else case first (byte c) of
        None \<Rightarrow> 1
      | Some (sz, lo, hi) \<Rightarrow>
          if Suc (length rest) < sz then 1
          else if \<not> between lo hi (rest ! 0) then 1
          else if sz = 2 then 2
          else if \<not> between 0x80 0xBF (rest ! 1) then 1
          else if sz = 3 then 3
          else if \<not> between 0x80 0xBF (rest ! 2) then 1
          else 4)"

fun RuneCountInString :: "string \<Rightarrow> nat" where
  "RuneCountInString [] = 0"
| "RuneCountInString (c # rest) =
     Suc (RuneCountInString (drop (rune_width c rest - 1) rest))"

subsection \<open>\<^verbatim>\<open>strconv.Atoi\<close>\<close>

text \<open>
  An optional sign, then at least one decimal digit and nothing else; the value has to
  fit Go's 64-bit \<^verbatim>\<open>int\<close>. \<open>None\<close> is the error return.
\<close>

definition isDigit :: "char \<Rightarrow> bool" where
  "isDigit c = (0x30 \<le> byte c \<and> byte c \<le> 0x39)"

definition digits :: "string \<Rightarrow> int" where
  "digits s = foldl (\<lambda>n ch. n * 10 + (int (byte ch) - 0x30)) 0 s"

definition Atoi :: "string \<Rightarrow> int option" where
  "Atoi s =
     (let neg = (s \<noteq> [] \<and> hd s = CHR ''-'');
          ds = (if s \<noteq> [] \<and> (hd s = CHR ''-'' \<or> hd s = CHR ''+'') then tl s else s)
      in if ds = [] \<or> \<not> list_all isDigit ds then None
         else (let v = (if neg then - digits ds else digits ds)
               in if v < - (2 ^ 63) \<or> 2 ^ 63 - 1 < v then None else Some v))"

section \<open>HTTP plumbing\<close>

text \<open>
  A handler writes exactly one response: \<^verbatim>\<open>writeJSON(w, status, v)\<close> or
  \<^verbatim>\<open>writeError(w, status, msg)\<close>. The query of a URL is the list of its
  key/value pairs in order; \<^verbatim>\<open>Get\<close> returns the first value of a key, or the empty
  string.
\<close>

datatype 'a response = writeJSON nat 'a | writeError nat string

fun status :: "'a response \<Rightarrow> nat" where
  "status (writeJSON st v) = st"
| "status (writeError st msg) = st"

type_synonym query = "(string \<times> string) list"

definition Get :: "query \<Rightarrow> string \<Rightarrow> string" where
  "Get q key = (case map_of q key of None \<Rightarrow> [] | Some v \<Rightarrow> v)"

definition queryInt :: "query \<Rightarrow> string \<Rightarrow> int \<Rightarrow> int" where
  "queryInt q key def =
     (let s = Get q key
      in if s = [] then def
         else case Atoi s of
           None \<Rightarrow> def
         | Some v \<Rightarrow> if v < 0 then def else v)"

section \<open>Registration: validation of the request\<close>

definition minPasswordLen :: nat where "minPasswordLen = 8"
definition maxPasswordLen :: nat where "maxPasswordLen = 72"
definition maxEmailLen :: nat where "maxEmailLen = 254"
definition maxDisplayName :: nat where "maxDisplayName = 200"

definition isValidEmail :: "string \<Rightarrow> bool" where
  "isValidEmail email =
     (let at = IndexByte email (CHR ''@'')
      in if at < 1 then False
         else (let domain = drop (nat (at + 1)) email
               in if domain = [] \<or> \<not> Contains domain ''.'' then False else True))"


section \<open>The model package\<close>

record User =
  ID :: string
  Email :: string
  PasswordHash :: string
  DisplayName :: string
  CreatedAt :: Time

record Note =
  ID :: string
  UserID :: string
  Title :: string
  Content :: string
  Type :: string
  ModifiedAt :: Time
  ModifiedByDevice :: string
  DeletedAt :: "Time option"
  CreatedAt :: Time

record Todo =
  ID :: string
  UserID :: string
  NoteID :: "string option"
  LineRef :: "string option"
  Content :: string
  DueDate :: "Time option"
  Completed :: bool
  ModifiedAt :: Time
  ModifiedByDevice :: string
  DeletedAt :: "Time option"
  CreatedAt :: Time

record RefreshToken =
  ID :: string
  UserID :: string
  DeviceID :: string
  TokenHash :: string
  ExpiresAt :: Time
  CreatedAt :: Time

text \<open>
  \<^verbatim>\<open>NowMillis\<close> truncates a reading of the clock to the millisecond;
  \<^verbatim>\<open>t.UnixMilli()\<close> is the number of whole milliseconds before \<open>t\<close>;
  \<^verbatim>\<open>t.After(u)\<close> compares instants.
\<close>

definition NowMillis :: "Time \<Rightarrow> Time" where
  "NowMillis now = (now div 1000000) * 1000000"

definition UnixMilli :: "Time \<Rightarrow> int" where
  "UnixMilli t = t div 1000000"

definition After :: "Time \<Rightarrow> Time \<Rightarrow> bool" where
  "After t u = (u < t)"

section \<open>The database\<close>

text \<open>
  The four tables of the schema, each a list of rows in insertion order. Timestamps are
  stored as integer milliseconds, a nullable column is an \<open>option\<close>. The constraints the
  schema declares are checked by the statements that write: the primary key \<open>id\<close> of
  every table, the unique \<open>email\<close> of users, the \<open>CHECK\<close> on the type of a note, and the
  foreign keys (\<open>user_id\<close> to users, \<open>note_id\<close> of a todo to notes), which \<open>Open\<close> switches
  on. A statement that violates one fails and changes nothing. Failures of the engine
  itself (I/O, a busy database) are not part of the model.
\<close>

record user_row =
  u_id :: string
  u_email :: string
  u_password_hash :: string
  u_display_name :: string
  u_created_at :: int

record note_row =
  n_id :: string
  n_user_id :: string
  n_title :: string
  n_content :: string
  n_type :: string
  n_modified_at :: int
  n_modified_by_device :: string
  n_deleted_at :: "int option"
  n_created_at :: int

record todo_row =
  t_id :: string
  t_user_id :: string
  t_note_id :: "string option"
  t_line_ref :: "string option"
  t_content :: string
  t_due_date :: "int option"
  t_completed :: bool
  t_modified_at :: int
  t_modified_by_device :: string
  t_deleted_at :: "int option"
  t_created_at :: int

record token_row =
  rt_id :: string
  rt_user_id :: string
  rt_device_id :: string
  rt_token_hash :: string
  rt_expires_at :: int
  rt_created_at :: int

record DB =
  tbl_users :: "user_row list"
  tbl_notes :: "note_row list"
  tbl_todos :: "todo_row list"
  tbl_refresh_tokens :: "token_row list"

datatype db_error = ErrNotFound | ErrConflict | ErrEngine string

subsection \<open>Timestamp helpers\<close>

definition toMillis :: "Time \<Rightarrow> int" where
  "toMillis t = UnixMilli t"

definition fromMillis :: "int \<Rightarrow> Time" where
  "fromMillis ms = ms * 1000000"

definition toNullMillis :: "Time option \<Rightarrow> int option" where
  "toNullMillis t = (case t of None \<Rightarrow> None | Some x \<Rightarrow> Some (UnixMilli x))"

definition fromNullMillis :: "int option \<Rightarrow> Time option" where
  "fromNullMillis n = (case n of None \<Rightarrow> None | Some ms \<Rightarrow> Some (fromMillis ms))"

subsection \<open>SQL clauses\<close>

text \<open>
  \<open>UPDATE t SET ... WHERE hit\<close> rewrites the rows the condition selects;
  \<open>LIMIT l OFFSET o\<close> skips \<open>o\<close> rows and keeps \<open>l\<close> (a negative limit keeps all, a
  negative offset skips none); \<open>ORDER BY\<close> is a stable sort of the rows in table order.
  SQL leaves the order of rows with equal keys to the engine; nothing proved below
  depends on the order the model gives them.
\<close>

definition sql_update :: "('r \<Rightarrow> bool) \<Rightarrow> ('r \<Rightarrow> 'r) \<Rightarrow> 'r list \<Rightarrow> 'r list" where
  "sql_update hit upd rows = map (\<lambda>r. if hit r then upd r else r) rows"

definition limit_offset :: "int \<Rightarrow> int \<Rightarrow> 'r list \<Rightarrow> 'r list" where
  "limit_offset l off rows =
     (let rest = drop (nat off) rows in if l < 0 then rest else take (nat l) rest)"

definition order_asc :: "('r \<Rightarrow> int) \<Rightarrow> 'r list \<Rightarrow> 'r list" where
  "order_asc col rows = sort_key col rows"

definition order_desc :: "('r \<Rightarrow> int) \<Rightarrow> 'r list \<Rightarrow> 'r list" where
  "order_desc col rows = sort_key (\<lambda>r. - col r) rows"

subsection \<open>The \<open>LIKE\<close> operator\<close>

text \<open>
  The engine's \<open>LIKE\<close>, with no \<open>ESCAPE\<close> clause: in the pattern \<open>%\<close> matches any run
  of characters and \<open>_\<close> any one character; every other character matches itself, and
  an ASCII letter also matches its other case. The operator reads both operands up to
  their first zero byte. A character is a byte, together with the continuation bytes
  that follow it when it is a lead byte of UTF-8; characters are compared byte by byte,
  which on well-formed UTF-8 is the engine's comparison of code points. The engine
  refuses a pattern of more than 50000 bytes; the model does not, and what is proved
  about a search is stated for queries within that limit.
\<close>

definition lower :: "char \<Rightarrow> char" where
  "lower c = (if 0x41 \<le> byte c \<and> byte c \<le> 0x5A then char_of (byte c + 32) else c)"

definition skip_char :: "string \<Rightarrow> string" where
  "skip_char s =
     (case s of
        [] \<Rightarrow> []
      | c # cs \<Rightarrow>
          if 0xC0 \<le> byte c then dropWhile (\<lambda>b. 0x80 \<le> byte b \<and> byte b < 0xC0) cs else cs)"

definition cstr :: "string \<Rightarrow> string" where
  "cstr s = takeWhile (\<lambda>c. byte c \<noteq> 0) s"

function patternCompare :: "string \<Rightarrow> string \<Rightarrow> bool" where
  "patternCompare [] s = (s = [])"
| "patternCompare (p # ps) [] = (p = CHR ''%'' \<and> patternCompare ps [])"
| "patternCompare (p # ps) (c # cs) =
     (if p = CHR ''%'' then
        (patternCompare ps (c # cs) \<or> patternCompare (p # ps) (skip_char (c # cs)))
      else if p = CHR ''_'' then patternCompare ps (skip_char (c # cs))
      else (lower p = lower c \<and> patternCompare ps cs))"
  by pat_completeness auto
termination
proof (relation "measure (\<lambda>(p, s). length p + length s)")
  show "wf (measure (\<lambda>(p, s). length p + length s))" by simp
next
  fix p :: char and ps c cs
  have "length (skip_char (c # cs)) \<le> length cs"
    by (simp add: skip_char_def length_dropWhile_le)
  then show "((p # ps, skip_char (c # cs)), (p # ps, c # cs)) \<in> measure (\<lambda>(p, s). length p + length s)"
    by simp
  assume "p \<noteq> CHR ''%''" "p = CHR ''_''"
  show "((ps, skip_char (c # cs)), (p # ps, c # cs)) \<in> measure (\<lambda>(p, s). length p + length s)"
    using \<open>length (skip_char (c # cs)) \<le> length cs\<close> by simp
qed auto

text \<open>The SQL expression \<open>s LIKE pattern\<close>.\<close>

definition LIKE :: "string \<Rightarrow> string \<Rightarrow> bool" where
  "LIKE s pattern = patternCompare (cstr pattern) (cstr s)"


subsection \<open>Notes\<close>

definition scanNote :: "note_row \<Rightarrow> Note" where
  "scanNote r =
     \<lparr> Note.ID = n_id r, Note.UserID = n_user_id r, Note.Title = n_title r,
       Note.Content = n_content r, Note.Type = n_type r,
       Note.ModifiedAt = fromMillis (n_modified_at r),
       Note.ModifiedByDevice = n_modified_by_device r,
       Note.DeletedAt = fromNullMillis (n_deleted_at r),
       Note.CreatedAt = fromMillis (n_created_at r) \<rparr>"

text \<open>The row that \<open>CreateNote\<close> inserts.\<close>

definition note_values :: "Note \<Rightarrow> note_row" where
  "note_values n =
     \<lparr> n_id = Note.ID n, n_user_id = Note.UserID n, n_title = Note.Title n,
       n_content = Note.Content n, n_type = Note.Type n,
       n_modified_at = toMillis (Note.ModifiedAt n),
       n_modified_by_device = Note.ModifiedByDevice n,
       n_deleted_at = toNullMillis (Note.DeletedAt n),
       n_created_at = toMillis (Note.CreatedAt n) \<rparr>"

definition check_note_type :: "string \<Rightarrow> bool" where
  "check_note_type ty = (ty = ''note'' \<or> ty = ''todo_list'')"

definition note_insert_ok :: "DB \<Rightarrow> note_row \<Rightarrow> bool" where
  "note_insert_ok db r =
     (n_id r \<notin> set (map n_id (tbl_notes db))
      \<and> n_user_id r \<in> set (map u_id (tbl_users db))
      \<and> check_note_type (n_type r))"

definition CreateNote :: "DB \<Rightarrow> Note \<Rightarrow> db_error + DB" where
  "CreateNote db n =
     (if note_insert_ok db (note_values n)
      then Inr (db\<lparr>tbl_notes := tbl_notes db @ [note_values n]\<rparr>)
      else Inl (ErrEngine ''create note''))"

definition GetNote :: "DB \<Rightarrow> string \<Rightarrow> string \<Rightarrow> db_error + Note" where
  "GetNote db i userID =
     (case find (\<lambda>r. n_id r = i \<and> n_user_id r = userID \<and> n_deleted_at r = None) (tbl_notes db) of
        None \<Rightarrow> Inl ErrNotFound
      | Some r \<Rightarrow> Inr (scanNote r))"

definition GetNoteAny :: "DB \<Rightarrow> string \<Rightarrow> string \<Rightarrow> db_error + Note" where
  "GetNoteAny db i userID =
     (case find (\<lambda>r. n_id r = i \<and> n_user_id r = userID) (tbl_notes db) of
        None \<Rightarrow> Inl ErrNotFound
      | Some r \<Rightarrow> Inr (scanNote r))"

text \<open>\<open>ListNotes\<close> and \<open>SearchNotes\<close> return the page and the total count.\<close>

definition ListNotes :: "DB \<Rightarrow> string \<Rightarrow> int \<Rightarrow> int \<Rightarrow> Note list \<times> int" where
  "ListNotes db userID l off =
     (let rows = filter (\<lambda>r. n_user_id r = userID \<and> n_deleted_at r = None) (tbl_notes db)
      in (map scanNote (limit_offset l off (order_desc n_modified_at rows)),
          int (length rows)))"

text \<open>
  \<open>DeleteNote\<close>: the \<open>SET\<close> clause of its \<open>UPDATE\<close>, then the statement; no row affected
  is \<open>ErrNotFound\<close>.
\<close>

definition note_delete_set :: "int \<Rightarrow> string \<Rightarrow> note_row \<Rightarrow> note_row" where
  "note_delete_set deletedAt deviceID r =
     r\<lparr>n_deleted_at := Some deletedAt, n_modified_at := deletedAt,
       n_modified_by_device := deviceID\<rparr>"

definition DeleteNote :: "DB \<Rightarrow> string \<Rightarrow> string \<Rightarrow> int \<Rightarrow> string \<Rightarrow> db_error + DB" where
  "DeleteNote db i userID deletedAt deviceID =
     (let hit = (\<lambda>r. n_id r = i \<and> n_user_id r = userID \<and> n_deleted_at r = None)
      in if filter hit (tbl_notes db) = [] then Inl ErrNotFound
         else Inr (db\<lparr>tbl_notes :=
                sql_update hit (note_delete_set deletedAt deviceID) (tbl_notes db)\<rparr>))"

definition SearchNotes :: "DB \<Rightarrow> string \<Rightarrow> string \<Rightarrow> int \<Rightarrow> int \<Rightarrow> Note list \<times> int" where
  "SearchNotes db userID q l off =
     (let pattern = ''%'' @ q @ ''%'';
          rows = filter (\<lambda>r. n_user_id r = userID \<and> n_deleted_at r = None
                             \<and> (LIKE (n_title r) pattern \<or> LIKE (n_content r) pattern))
                   (tbl_notes db)
      in (map scanNote (limit_offset l off (order_desc n_modified_at rows)),
          int (length rows)))"

definition GetNoteChangesSince :: "DB \<Rightarrow> string \<Rightarrow> int \<Rightarrow> Note list" where
  "GetNoteChangesSince db userID sinceMs =
     map scanNote
       (order_asc n_modified_at
          (filter (\<lambda>r. n_user_id r = userID \<and> sinceMs < n_modified_at r) (tbl_notes db)))"

text \<open>
  \<open>UpsertNote\<close> returns the server's version when the incoming note loses, \<open>None\<close> when
  it was inserted or written over the existing row. \<open>note_set\<close> is the \<open>SET\<close> clause of
  its \<open>UPDATE\<close>.
\<close>

definition note_set :: "Note \<Rightarrow> note_row \<Rightarrow> note_row" where
  "note_set n r =
     r\<lparr>n_title := Note.Title n, n_content := Note.Content n, n_type := Note.Type n,
       n_modified_at := toMillis (Note.ModifiedAt n),
       n_modified_by_device := Note.ModifiedByDevice n,
       n_deleted_at := toNullMillis (Note.DeletedAt n)\<rparr>"

definition UpsertNote :: "DB \<Rightarrow> Note \<Rightarrow> db_error + (DB \<times> Note option)" where
  "UpsertNote db n =
     (case GetNoteAny db (Note.ID n) (Note.UserID n) of
        Inl ErrNotFound \<Rightarrow>
          (case CreateNote db n of Inl e \<Rightarrow> Inl e | Inr db' \<Rightarrow> Inr (db', None))
      | Inl e \<Rightarrow> Inl e
      | Inr existing \<Rightarrow>
          if After (Note.ModifiedAt n) (Note.ModifiedAt existing) then
            (if check_note_type (Note.Type n) then
               Inr (db\<lparr>tbl_notes :=
                      sql_update (\<lambda>r. n_id r = Note.ID n \<and> n_user_id r = Note.UserID n)
                        (note_set n) (tbl_notes db)\<rparr>, None)
             else Inl (ErrEngine ''upsert note''))
          else Inr (db, Some existing))"


subsection \<open>Todos\<close>

definition scanTodo :: "todo_row \<Rightarrow> Todo" where
  "scanTodo r =
     \<lparr> Todo.ID = t_id r, Todo.UserID = t_user_id r, Todo.NoteID = t_note_id r,
       Todo.LineRef = t_line_ref r, Todo.Content = t_content r,
       Todo.DueDate = fromNullMillis (t_due_date r), Todo.Completed = t_completed r,
       Todo.ModifiedAt = fromMillis (t_modified_at r),
       Todo.ModifiedByDevice = t_modified_by_device r,
       Todo.DeletedAt = fromNullMillis (t_deleted_at r),
       Todo.CreatedAt = fromMillis (t_created_at r) \<rparr>"

text \<open>The row that \<open>CreateTodo\<close> inserts.\<close>

definition todo_values :: "Todo \<Rightarrow> todo_row" where
  "todo_values t =
     \<lparr> t_id = Todo.ID t, t_user_id = Todo.UserID t, t_note_id = Todo.NoteID t,
       t_line_ref = Todo.LineRef t, t_content = Todo.Content t,
       t_due_date = toNullMillis (Todo.DueDate t), t_completed = Todo.Completed t,
       t_modified_at = toMillis (Todo.ModifiedAt t),
       t_modified_by_device = Todo.ModifiedByDevice t,
       t_deleted_at = toNullMillis (Todo.DeletedAt t),
       t_created_at = toMillis (Todo.CreatedAt t) \<rparr>"

text \<open>The foreign key \<open>note_id REFERENCES notes(id)\<close>: a null reference is allowed.\<close>

definition note_ref_ok :: "DB \<Rightarrow> string option \<Rightarrow> bool" where
  "note_ref_ok db ref =
     (case ref of None \<Rightarrow> True | Some i \<Rightarrow> i \<in> set (map n_id (tbl_notes db)))"

definition todo_insert_ok :: "DB \<Rightarrow> todo_row \<Rightarrow> bool" where
  "todo_insert_ok db r =
     (t_id r \<notin> set (map t_id (tbl_todos db))
      \<and> t_user_id r \<in> set (map u_id (tbl_users db))
      \<and> note_ref_ok db (t_note_id r))"

definition CreateTodo :: "DB \<Rightarrow> Todo \<Rightarrow> db_error + DB" where
  "CreateTodo db t =
     (if todo_insert_ok db (todo_values t)
      then Inr (db\<lparr>tbl_todos := tbl_todos db @ [todo_values t]\<rparr>)
      else Inl (ErrEngine ''create todo''))"

definition GetTodo :: "DB \<Rightarrow> string \<Rightarrow> string \<Rightarrow> db_error + Todo" where
  "GetTodo db i userID =
     (case find (\<lambda>r. t_id r = i \<and> t_user_id r = userID \<and> t_deleted_at r = None) (tbl_todos db) of
        None \<Rightarrow> Inl ErrNotFound
      | Some r \<Rightarrow> Inr (scanTodo r))"

definition GetTodoAny :: "DB \<Rightarrow> string \<Rightarrow> string \<Rightarrow> db_error + Todo" where
  "GetTodoAny db i userID =
     (case find (\<lambda>r. t_id r = i \<and> t_user_id r = userID) (tbl_todos db) of
        None \<Rightarrow> Inl ErrNotFound
      | Some r \<Rightarrow> Inr (scanTodo r))"

definition ListTodos :: "DB \<Rightarrow> string \<Rightarrow> int \<Rightarrow> int \<Rightarrow> Todo list \<times> int" where
  "ListTodos db userID l off =
     (let rows = filter (\<lambda>r. t_user_id r = userID \<and> t_deleted_at r = None) (tbl_todos db)
      in (map scanTodo (limit_offset l off (order_desc t_modified_at rows)),
          int (length rows)))"

definition todo_delete_set :: "int \<Rightarrow> string \<Rightarrow> todo_row \<Rightarrow> todo_row" where
  "todo_delete_set deletedAt deviceID r =
     r\<lparr>t_deleted_at := Some deletedAt, t_modified_at := deletedAt,
       t_modified_by_device := deviceID\<rparr>"

definition DeleteTodo :: "DB \<Rightarrow> string \<Rightarrow> string \<Rightarrow> int \<Rightarrow> string \<Rightarrow> db_error + DB" where
  "DeleteTodo db i userID deletedAt deviceID =
     (let hit = (\<lambda>r. t_id r = i \<and> t_user_id r = userID \<and> t_deleted_at r = None)
      in if filter hit (tbl_todos db) = [] then Inl ErrNotFound
         else Inr (db\<lparr>tbl_todos :=
                sql_update hit (todo_delete_set deletedAt deviceID) (tbl_todos db)\<rparr>))"

text \<open>\<open>GetOverdueTodos\<close> reads the clock; the reading is its second argument.\<close>

definition GetOverdueTodos :: "DB \<Rightarrow> Time \<Rightarrow> string \<Rightarrow> Todo list" where
  "GetOverdueTodos db clock userID =
     (let now = UnixMilli (NowMillis clock)
      in map scanTodo
           (order_asc (\<lambda>r. case t_due_date r of None \<Rightarrow> 0 | Some d \<Rightarrow> d)
              (filter (\<lambda>r. t_user_id r = userID \<and> t_deleted_at r = None \<and> \<not> t_completed r
                            \<and> (case t_due_date r of None \<Rightarrow> False | Some d \<Rightarrow> d < now))
                 (tbl_todos db))))"

definition GetTodoChangesSince :: "DB \<Rightarrow> string \<Rightarrow> int \<Rightarrow> Todo list" where
  "GetTodoChangesSince db userID sinceMs =
     map scanTodo
       (order_asc t_modified_at
          (filter (\<lambda>r. t_user_id r = userID \<and> sinceMs < t_modified_at r) (tbl_todos db)))"

definition todo_set :: "Todo \<Rightarrow> todo_row \<Rightarrow> todo_row" where
  "todo_set t r =
     r\<lparr>t_note_id := Todo.NoteID t, t_line_ref := Todo.LineRef t,
       t_content := Todo.Content t, t_due_date := toNullMillis (Todo.DueDate t),
       t_completed := Todo.Completed t, t_modified_at := toMillis (Todo.ModifiedAt t),
       t_modified_by_device := Todo.ModifiedByDevice t,
       t_deleted_at := toNullMillis (Todo.DeletedAt t)\<rparr>"

definition UpsertTodo :: "DB \<Rightarrow> Todo \<Rightarrow> db_error + (DB \<times> Todo option)" where
  "UpsertTodo db t =
     (case GetTodoAny db (Todo.ID t) (Todo.UserID t) of
        Inl ErrNotFound \<Rightarrow>
          (case CreateTodo db t of Inl e \<Rightarrow> Inl e | Inr db' \<Rightarrow> Inr (db', None))
      | Inl e \<Rightarrow> Inl e
      | Inr existing \<Rightarrow>
          if After (Todo.ModifiedAt t) (Todo.ModifiedAt existing) then
            (if note_ref_ok db (Todo.NoteID t) then
               Inr (db\<lparr>tbl_todos :=
                      sql_update (\<lambda>r. t_id r = Todo.ID t \<and> t_user_id r = Todo.UserID t)
                        (todo_set t) (tbl_todos db)\<rparr>, None)
             else Inl (ErrEngine ''upsert todo''))
          else Inr (db, Some existing))"

subsection \<open>Users and refresh tokens\<close>

definition scanUser :: "user_row \<Rightarrow> User" where
  "scanUser r =
     \<lparr> User.ID = u_id r, User.Email = u_email r, User.PasswordHash = u_password_hash r,
       User.DisplayName = u_display_name r, User.CreatedAt = fromMillis (u_created_at r) \<rparr>"

definition user_values :: "User \<Rightarrow> user_row" where
  "user_values u =
     \<lparr> u_id = User.ID u, u_email = User.Email u, u_password_hash = User.PasswordHash u,
       u_display_name = User.DisplayName u, u_created_at = toMillis (User.CreatedAt u) \<rparr>"

text \<open>
  The only statements that can fail on users are the two uniqueness constraints, and
  \<open>isConstraintError\<close> turns both into \<open>ErrConflict\<close>.
\<close>

definition CreateUser :: "DB \<Rightarrow> User \<Rightarrow> db_error + DB" where
  "CreateUser db u =
     (if User.ID u \<in> set (map u_id (tbl_users db))
         \<or> User.Email u \<in> set (map u_email (tbl_users db))
      then Inl ErrConflict
      else Inr (db\<lparr>tbl_users := tbl_users db @ [user_values u]\<rparr>))"

definition GetUserByID :: "DB \<Rightarrow> string \<Rightarrow> db_error + User" where
  "GetUserByID db i =
     (case find (\<lambda>r. u_id r = i) (tbl_users db) of
        None \<Rightarrow> Inl ErrNotFound
      | Some r \<Rightarrow> Inr (scanUser r))"

definition scanRefreshToken :: "token_row \<Rightarrow> RefreshToken" where
  "scanRefreshToken r =
     \<lparr> RefreshToken.ID = rt_id r, RefreshToken.UserID = rt_user_id r,
       RefreshToken.DeviceID = rt_device_id r, RefreshToken.TokenHash = rt_token_hash r,
       RefreshToken.ExpiresAt = fromMillis (rt_expires_at r),
       RefreshToken.CreatedAt = fromMillis (rt_created_at r) \<rparr>"

definition token_values :: "RefreshToken \<Rightarrow> token_row" where
  "token_values rt =
     \<lparr> rt_id = RefreshToken.ID rt, rt_user_id = RefreshToken.UserID rt,
       rt_device_id = RefreshToken.DeviceID rt, rt_token_hash = RefreshToken.TokenHash rt,
       rt_expires_at = toMillis (RefreshToken.ExpiresAt rt),
       rt_created_at = toMillis (RefreshToken.CreatedAt rt) \<rparr>"

definition CreateRefreshToken :: "DB \<Rightarrow> RefreshToken \<Rightarrow> db_error + DB" where
  "CreateRefreshToken db rt =
     (if RefreshToken.ID rt \<notin> set (map rt_id (tbl_refresh_tokens db))
         \<and> RefreshToken.UserID rt \<in> set (map u_id (tbl_users db))
      then Inr (db\<lparr>tbl_refresh_tokens := tbl_refresh_tokens db @ [token_values rt]\<rparr>)
      else Inl (ErrEngine ''create refresh token''))"

definition GetRefreshTokenByHash :: "DB \<Rightarrow> string \<Rightarrow> db_error + RefreshToken" where
  "GetRefreshTokenByHash db tokenHash =
     (case find (\<lambda>r. rt_token_hash r = tokenHash) (tbl_refresh_tokens db) of
        None \<Rightarrow> Inl ErrNotFound
      | Some r \<Rightarrow> Inr (scanRefreshToken r))"

text \<open>
  \<open>DELETE FROM refresh_tokens WHERE id = ?\<close> removes the matching rows. No constraint
  stands in its way (no table refers to refresh tokens), so in this model it always
  returns the new database.
\<close>

definition DeleteRefreshToken :: "DB \<Rightarrow> string \<Rightarrow> db_error + DB" where
  "DeleteRefreshToken db i =
     Inr (db\<lparr>tbl_refresh_tokens := filter (\<lambda>r. rt_id r \<noteq> i) (tbl_refresh_tokens db)\<rparr>)"


section \<open>The API\<close>

text \<open>
  What a handler uses and this repository does not contain is a parameter. The record
  \<open>API\<close> is the receiver \<^verbatim>\<open>*API\<close> together with the deterministic library functions:
  the two string functions of \<^verbatim>\<open>strings\<close>, SHA-256 in hexadecimal, and the two
  operations of the JWT library under the server's key (\<open>ParseWithClaims\<close> takes the
  instant at which it checks the expiry and returns the claims of a token that is
  valid, \<open>SignedString\<close> may fail). The record \<open>world\<close> is what one request draws from
  outside: the successive readings of the clock, the identifier \<^verbatim>\<open>model.NewID()\<close>
  generates, and the salted hash bcrypt computes.
\<close>

datatype claim = CString string | CNumber int

type_synonym MapClaims = "string \<Rightarrow> claim option"

record API =
  ToLower :: "string \<Rightarrow> string"
  TrimSpace :: "string \<Rightarrow> string"
  Sum256_hex :: "string \<Rightarrow> string"
  SignedString :: "MapClaims \<Rightarrow> string option"
  ParseWithClaims :: "Time \<Rightarrow> string \<Rightarrow> MapClaims option"
  accessTokenExpiry :: int
  refreshTokenExpiry :: int

record world =
  time_Now :: "nat \<Rightarrow> Time"
  NewID :: string
  GenerateFromPassword :: "string \<Rightarrow> string option"

definition Unix :: "Time \<Rightarrow> int" where
  "Unix t = t div 1000000000"

definition HashToken :: "API \<Rightarrow> string \<Rightarrow> string" where
  "HashToken a token = Sum256_hex a token"

subsection \<open>Request and response types\<close>

record RegisterRequest =
  Email :: string
  Password :: string
  DisplayName :: string

record RefreshRequest =
  RefreshToken :: string

record AuthResponse =
  AccessToken :: string
  RefreshToken :: string
  User :: User

record SyncPushRequest =
  Notes :: "Note list"
  Todos :: "Todo list"
  DeviceID :: string

record SyncConflict =
  Type :: string
  ID :: string
  ServerNote :: "Note option"
  ServerTodo :: "Todo option"

record SyncPushResponse =
  Conflicts :: "SyncConflict list"
  Accepted :: int
  Timestamp :: int

record NoteListResponse =
  Notes :: "Note list"
  Total :: int
  Limit :: int
  Offset :: int

record TodoListResponse =
  Todos :: "Todo list"
  Total :: int
  Limit :: int
  Offset :: int

subsection \<open>Tokens\<close>

definition claim_string :: "MapClaims \<Rightarrow> string \<Rightarrow> string" where
  "claim_string claims key = (case claims key of Some (CString v) \<Rightarrow> v | _ \<Rightarrow> [])"

definition issueAccessToken :: "API \<Rightarrow> Time \<Rightarrow> string \<Rightarrow> string \<Rightarrow> string option" where
  "issueAccessToken a now userID deviceID =
     SignedString a
       [''sub'' \<mapsto> CString userID, ''device_id'' \<mapsto> CString deviceID,
        ''type'' \<mapsto> CString ''access'', ''iat'' \<mapsto> CNumber (Unix now),
        ''exp'' \<mapsto> CNumber (Unix (now + accessTokenExpiry a))]"

definition issueRefreshToken :: "API \<Rightarrow> Time \<Rightarrow> string \<Rightarrow> string \<Rightarrow> string \<Rightarrow> string option" where
  "issueRefreshToken a now tokenID userID deviceID =
     SignedString a
       [''sub'' \<mapsto> CString userID, ''jti'' \<mapsto> CString tokenID,
        ''device_id'' \<mapsto> CString deviceID, ''type'' \<mapsto> CString ''refresh'',
        ''iat'' \<mapsto> CNumber (Unix now),
        ''exp'' \<mapsto> CNumber (Unix (now + refreshTokenExpiry a))]"

text \<open>\<open>parseRefreshToken\<close> returns the user, the token identifier and the device.\<close>

definition parseRefreshToken :: "API \<Rightarrow> Time \<Rightarrow> string \<Rightarrow> (string \<times> string \<times> string) option" where
  "parseRefreshToken a now tokenStr =
     (case ParseWithClaims a now tokenStr of
        None \<Rightarrow> None
      | Some claims \<Rightarrow>
          if claim_string claims ''type'' \<noteq> ''refresh'' then None
          else Some (claim_string claims ''sub'', claim_string claims ''jti'',
                     claim_string claims ''device_id''))"

text \<open>
  \<open>issueTokenPair\<close> reads the clock three times (readings 1, 2 and 3 of the request;
  reading 0 is the one the parser of the refresh handler uses).
\<close>

definition issueTokenPair :: "API \<Rightarrow> world \<Rightarrow> DB \<Rightarrow> User \<Rightarrow> string \<Rightarrow> db_error + (DB \<times> AuthResponse)" where
  "issueTokenPair a w db user deviceID =
     (case issueAccessToken a (time_Now w 1) (User.ID user) deviceID of
        None \<Rightarrow> Inl (ErrEngine ''sign'')
      | Some accessToken \<Rightarrow>
          (let tokenID = NewID w in
           case issueRefreshToken a (time_Now w 2) tokenID (User.ID user) deviceID of
             None \<Rightarrow> Inl (ErrEngine ''sign'')
           | Some refreshToken \<Rightarrow>
               (let now = NowMillis (time_Now w 3);
                    rt = \<lparr> RefreshToken.ID = tokenID, RefreshToken.UserID = User.ID user,
                           RefreshToken.DeviceID = deviceID,
                           RefreshToken.TokenHash = HashToken a refreshToken,
                           RefreshToken.ExpiresAt = now + refreshTokenExpiry a,
                           RefreshToken.CreatedAt = now \<rparr>
                in case CreateRefreshToken db rt of
                     Inl e \<Rightarrow> Inl e
                   | Inr db' \<Rightarrow>
                       Inr (db', \<lparr> AccessToken = accessToken,
                                   AuthResponse.RefreshToken = refreshToken,
                                   User = user \<rparr>))))"

subsection \<open>Authentication handlers\<close>

text \<open>
  The request argument of a handler is the decoded body, \<open>None\<close> when \<open>decodeJSON\<close>
  fails. A handler returns the database it leaves and the response it writes.
  \<open>handleRefresh\<close> only logs an error of the deletion of the old record and goes on with
  the database as it is.
\<close>

definition handleRegister :: "API \<Rightarrow> world \<Rightarrow> DB \<Rightarrow> RegisterRequest option \<Rightarrow> DB \<times> User response" where
  "handleRegister a w db body =
     (case body of
        None \<Rightarrow> (db, writeError 400 ''invalid request body'')
      | Some req \<Rightarrow>
          (let email = TrimSpace a (ToLower a (Email req));
               displayName = TrimSpace a (DisplayName req);
               password = Password req
           in if email = [] \<or> password = [] \<or> displayName = [] then
                (db, writeError 400 ''email, password, and display_name are required'')
              else if \<not> isValidEmail email then
                (db, writeError 400 ''invalid email address'')
              else if maxEmailLen < RuneCountInString email then
                (db, writeError 400 ''email too long'')
              else if RuneCountInString password < minPasswordLen then
                (db, writeError 400 ''password must be at least 8 characters'')
              else if maxPasswordLen < length password then
                (db, writeError 400 ''password too long'')
              else if maxDisplayName < RuneCountInString displayName then
                (db, writeError 400 ''display name too long'')
              else
                (case GenerateFromPassword w password of
                   None \<Rightarrow> (db, writeError 500 ''internal error'')
                 | Some hash \<Rightarrow>
                     (let user = \<lparr> User.ID = NewID w, User.Email = email,
                                    User.PasswordHash = hash,
                                    User.DisplayName = TrimSpace a displayName,
                                    User.CreatedAt = NowMillis (time_Now w 0) \<rparr>
                      in case CreateUser db user of
                           Inl ErrConflict \<Rightarrow> (db, writeError 409 ''email already registered'')
                         | Inl e \<Rightarrow> (db, writeError 500 ''internal error'')
                         | Inr db' \<Rightarrow> (db', writeJSON 201 user)))))"

definition handleRefresh :: "API \<Rightarrow> world \<Rightarrow> DB \<Rightarrow> RefreshRequest option \<Rightarrow> DB \<times> AuthResponse response" where
  "handleRefresh a w db body =
     (case body of
        None \<Rightarrow> (db, writeError 400 ''invalid request body'')
      | Some req \<Rightarrow>
          if RefreshRequest.RefreshToken req = [] then
            (db, writeError 400 ''refresh_token is required'')
          else
            (case parseRefreshToken a (time_Now w 0) (RefreshRequest.RefreshToken req) of
               None \<Rightarrow> (db, writeError 401 ''invalid refresh token'')
             | Some (userID, tokenID, deviceID) \<Rightarrow>
                 (case GetRefreshTokenByHash db (HashToken a (RefreshRequest.RefreshToken req)) of
                    Inl ErrNotFound \<Rightarrow> (db, writeError 401 ''refresh token revoked'')
                  | Inl e \<Rightarrow> (db, writeError 500 ''internal error'')
                  | Inr stored \<Rightarrow>
                      if RefreshToken.ID stored \<noteq> tokenID \<or> RefreshToken.UserID stored \<noteq> userID then
                        (db, writeError 401 ''invalid refresh token'')
                      else
                        (let db1 = (case DeleteRefreshToken db (RefreshToken.ID stored) of
                                      Inl e \<Rightarrow> db
                                    | Inr d \<Rightarrow> d)
                         in case GetUserByID db1 userID of
                              Inl e \<Rightarrow> (db1, writeError 401 ''user not found'')
                            | Inr user \<Rightarrow>
                                (case issueTokenPair a w db1 user deviceID of
                                   Inl e \<Rightarrow> (db1, writeError 500 ''internal error'')
                                 | Inr (db2, resp) \<Rightarrow> (db2, writeJSON 200 resp))))))"


subsection \<open>List and search handlers\<close>

text \<open>
  The handlers below run behind the \<open>auth\<close> middleware; \<open>userID\<close> is the subject of the
  access token the middleware verified.
\<close>

definition handleListNotes :: "DB \<Rightarrow> string \<Rightarrow> query \<Rightarrow> NoteListResponse response" where
  "handleListNotes db userID q =
     (let limit0 = queryInt q ''limit'' 50;
          offset = queryInt q ''offset'' 0;
          limit = (if 200 < limit0 then 200 else limit0);
          (notes, total) = ListNotes db userID limit offset
      in writeJSON 200
           \<lparr> NoteListResponse.Notes = notes, NoteListResponse.Total = total,
             NoteListResponse.Limit = limit, NoteListResponse.Offset = offset \<rparr>)"

definition handleListTodos :: "DB \<Rightarrow> string \<Rightarrow> query \<Rightarrow> TodoListResponse response" where
  "handleListTodos db userID q =
     (let limit0 = queryInt q ''limit'' 50;
          offset = queryInt q ''offset'' 0;
          limit = (if 200 < limit0 then 200 else limit0);
          (todos, total) = ListTodos db userID limit offset
      in writeJSON 200
           \<lparr> TodoListResponse.Todos = todos, TodoListResponse.Total = total,
             TodoListResponse.Limit = limit, TodoListResponse.Offset = offset \<rparr>)"

definition handleSearchNotes :: "DB \<Rightarrow> string \<Rightarrow> query \<Rightarrow> NoteListResponse response" where
  "handleSearchNotes db userID q =
     (let query = Get q ''q''
      in if query = [] then writeError 400 ''q parameter is required''
         else
           (let limit0 = queryInt q ''limit'' 50;
                offset = queryInt q ''offset'' 0;
                limit = (if 200 < limit0 then 200 else limit0);
                (notes, total) = SearchNotes db userID query limit offset
            in writeJSON 200
                 \<lparr> NoteListResponse.Notes = notes, NoteListResponse.Total = total,
                   NoteListResponse.Limit = limit, NoteListResponse.Offset = offset \<rparr>))"

subsection \<open>Sync push\<close>

text \<open>
  The two loops of \<open>handleSyncPush\<close>. Each carries the database, the conflicts and the
  number of accepted records; \<open>None\<close> is the early return after a store error, which
  keeps what earlier iterations wrote.
\<close>

fun push_notes :: "string \<Rightarrow> Note list \<Rightarrow> DB \<Rightarrow> SyncConflict list \<Rightarrow> int
    \<Rightarrow> DB \<times> (SyncConflict list \<times> int) option" where
  "push_notes userID [] db conflicts accepted = (db, Some (conflicts, accepted))"
| "push_notes userID (n # ns) db conflicts accepted =
     (case UpsertNote db (n\<lparr>Note.UserID := userID\<rparr>) of
        Inl e \<Rightarrow> (db, None)
      | Inr (db', Some serverVersion) \<Rightarrow>
          push_notes userID ns db'
            (conflicts @ [\<lparr> SyncConflict.Type = ''note'', SyncConflict.ID = Note.ID n,
                            ServerNote = Some serverVersion, ServerTodo = None \<rparr>])
            accepted
      | Inr (db', None) \<Rightarrow> push_notes userID ns db' conflicts (accepted + 1))"

fun push_todos :: "string \<Rightarrow> Todo list \<Rightarrow> DB \<Rightarrow> SyncConflict list \<Rightarrow> int
    \<Rightarrow> DB \<times> (SyncConflict list \<times> int) option" where
  "push_todos userID [] db conflicts accepted = (db, Some (conflicts, accepted))"
| "push_todos userID (t # ts) db conflicts accepted =
     (case UpsertTodo db (t\<lparr>Todo.UserID := userID\<rparr>) of
        Inl e \<Rightarrow> (db, None)
      | Inr (db', Some serverVersion) \<Rightarrow>
          push_todos userID ts db'
            (conflicts @ [\<lparr> SyncConflict.Type = ''todo'', SyncConflict.ID = Todo.ID t,
                            ServerNote = None, ServerTodo = Some serverVersion \<rparr>])
            accepted
      | Inr (db', None) \<Rightarrow> push_todos userID ts db' conflicts (accepted + 1))"

definition handleSyncPush :: "world \<Rightarrow> DB \<Rightarrow> string \<Rightarrow> SyncPushRequest option
    \<Rightarrow> DB \<times> SyncPushResponse response" where
  "handleSyncPush w db userID body =
     (case body of
        None \<Rightarrow> (db, writeError 400 ''invalid request body'')
      | Some req \<Rightarrow>
          (case push_notes userID (SyncPushRequest.Notes req) db [] 0 of
             (db1, None) \<Rightarrow> (db1, writeError 500 ''internal error'')
           | (db1, Some (conflicts1, accepted1)) \<Rightarrow>
               (case push_todos userID (SyncPushRequest.Todos req) db1 conflicts1 accepted1 of
                  (db2, None) \<Rightarrow> (db2, writeError 500 ''internal error'')
                | (db2, Some (conflicts, accepted)) \<Rightarrow>
                    (db2, writeJSON 200
                            \<lparr> Conflicts = conflicts, Accepted = accepted,
                              Timestamp = UnixMilli (NowMillis (time_Now w 0)) \<rparr>))))"


section \<open>Terms of the specification\<close>

text \<open>
  The page parameters as the specification words them, for the value \<open>s\<close> of the query
  parameter: a value that does not parse, or is negative, gives the default (50 for the
  limit, 0 for the offset), and a limit above 200 gives 200.
\<close>

definition page_limit :: "string \<Rightarrow> int" where
  "page_limit s =
     (case Atoi s of
        None \<Rightarrow> 50
      | Some v \<Rightarrow> if v < 0 then 50 else if 200 < v then 200 else v)"

definition page_offset :: "string \<Rightarrow> int" where
  "page_offset s = (case Atoi s of None \<Rightarrow> 0 | Some v \<Rightarrow> if v < 0 then 0 else v)"

text \<open>
  The record an accepted overwrite leaves: the existing one with the six mutable fields of
  the incoming note, its instants cut to the millisecond the store keeps.
\<close>

definition note_overwrite :: "Note \<Rightarrow> Note \<Rightarrow> Note" where
  "note_overwrite existing n =
     existing\<lparr> Note.Title := Note.Title n, Note.Content := Note.Content n,
               Note.Type := Note.Type n,
               Note.ModifiedAt := fromMillis (toMillis (Note.ModifiedAt n)),
               Note.ModifiedByDevice := Note.ModifiedByDevice n,
               Note.DeletedAt := fromNullMillis (toNullMillis (Note.DeletedAt n)) \<rparr>"

definition todo_overwrite :: "Todo \<Rightarrow> Todo \<Rightarrow> Todo" where
  "todo_overwrite existing t =
     existing\<lparr> Todo.NoteID := Todo.NoteID t, Todo.LineRef := Todo.LineRef t,
               Todo.Content := Todo.Content t,
               Todo.DueDate := fromNullMillis (toNullMillis (Todo.DueDate t)),
               Todo.Completed := Todo.Completed t,
               Todo.ModifiedAt := fromMillis (toMillis (Todo.ModifiedAt t)),
               Todo.ModifiedByDevice := Todo.ModifiedByDevice t,
               Todo.DeletedAt := fromNullMillis (toNullMillis (Todo.DeletedAt t)) \<rparr>"

text \<open>
  What a push by user \<open>u\<close> may change: the notes and todos of other users are, row for
  row, what they were; every row of the new state is a row of the old one or belongs to
  \<open>u\<close>; users and refresh tokens are untouched.
\<close>

definition written_for :: "string \<Rightarrow> DB \<Rightarrow> DB \<Rightarrow> bool" where
  "written_for u db db' =
     (filter (\<lambda>r. n_user_id r \<noteq> u) (tbl_notes db') = filter (\<lambda>r. n_user_id r \<noteq> u) (tbl_notes db)
      \<and> list_all (\<lambda>r. r \<in> set (tbl_notes db) \<or> n_user_id r = u) (tbl_notes db')
      \<and> filter (\<lambda>r. t_user_id r \<noteq> u) (tbl_todos db') = filter (\<lambda>r. t_user_id r \<noteq> u) (tbl_todos db)
      \<and> list_all (\<lambda>r. r \<in> set (tbl_todos db) \<or> t_user_id r = u) (tbl_todos db')
      \<and> tbl_users db' = tbl_users db
      \<and> tbl_refresh_tokens db' = tbl_refresh_tokens db)"

text \<open>
  A plain query: not empty, made of ASCII characters other than \<open>%\<close>, \<open>_\<close> and the zero
  byte. \<open>contains_nocase s q\<close>: \<open>q\<close> occurs in \<open>s\<close> (read up to its first zero byte) when
  the case of ASCII letters is ignored.
\<close>

definition plain_query :: "string \<Rightarrow> bool" where
  "plain_query q =
     (q \<noteq> [] \<and> list_all (\<lambda>c. 0 < byte c \<and> byte c < 0x80 \<and> c \<noteq> CHR ''%'' \<and> c \<noteq> CHR ''_'') q)"

definition contains_nocase :: "string \<Rightarrow> string \<Rightarrow> bool" where
  "contains_nocase s q = Contains (map lower (cstr s)) (map lower q)"

section \<open>Example data\<close>

text \<open>
  A small installation on which the model is evaluated: two users, three notes (one of
  them soft-deleted), two todos and one refresh token. The library functions are simple
  stand-ins: the string functions are the ASCII part of Go's, the hash prefixes its
  argument, and a refresh token is the text \<open>refresh.\<close> followed by its identifier.
\<close>

definition isSpace :: "char \<Rightarrow> bool" where
  "isSpace c = (c = CHR '' '' \<or> (0x09 \<le> byte c \<and> byte c \<le> 0x0D))"

definition ascii_ToLower :: "string \<Rightarrow> string" where
  "ascii_ToLower s = map lower s"

definition ascii_TrimSpace :: "string \<Rightarrow> string" where
  "ascii_TrimSpace s = rev (dropWhile isSpace (rev (dropWhile isSpace s)))"

definition example_API :: API where
  "example_API =
     \<lparr> ToLower = ascii_ToLower, TrimSpace = ascii_TrimSpace,
       Sum256_hex = (\<lambda>t. ''sha:'' @ t),
       SignedString = (\<lambda>c. Some (claim_string c ''type'' @ ''.'' @ claim_string c ''jti'')),
       ParseWithClaims = (\<lambda>now tok.
          if take 8 tok = ''refresh.'' then
            Some [''type'' \<mapsto> CString ''refresh'', ''sub'' \<mapsto> CString ''u1'',
                  ''jti'' \<mapsto> CString (drop 8 tok), ''device_id'' \<mapsto> CString ''d1'']
          else None),
       accessTokenExpiry = 900000000000, refreshTokenExpiry = 2592000000000000 \<rparr>"

definition example_world :: "string \<Rightarrow> world" where
  "example_world i =
     \<lparr> time_Now = (\<lambda>k. 1700000000123456789 + int k), NewID = i,
       GenerateFromPassword = (\<lambda>p. Some (''bcrypt:'' @ p)) \<rparr>"

definition empty_DB :: DB where
  "empty_DB = \<lparr> tbl_users = [], tbl_notes = [], tbl_todos = [], tbl_refresh_tokens = [] \<rparr>"

definition example_DB :: DB where
  "example_DB =
     \<lparr> tbl_users =
         [\<lparr> u_id = ''u1'', u_email = ''a@b.co'', u_password_hash = ''bcrypt:pass1234'',
             u_display_name = ''A'', u_created_at = 100 \<rparr>,
          \<lparr> u_id = ''u2'', u_email = ''c@d.org'', u_password_hash = ''bcrypt:password'',
             u_display_name = ''C'', u_created_at = 200 \<rparr>],
       tbl_notes =
         [\<lparr> n_id = ''n1'', n_user_id = ''u1'', n_title = ''Milk'', n_content = ''eggs'',
             n_type = ''note'', n_modified_at = 1000, n_modified_by_device = ''d1'',
             n_deleted_at = None, n_created_at = 1000 \<rparr>,
          \<lparr> n_id = ''n2'', n_user_id = ''u2'', n_title = ''Private'', n_content = ''secret'',
             n_type = ''note'', n_modified_at = 2000, n_modified_by_device = ''d2'',
             n_deleted_at = None, n_created_at = 2000 \<rparr>,
          \<lparr> n_id = ''n3'', n_user_id = ''u1'', n_title = ''Old'', n_content = ''gone'',
             n_type = ''todo_list'', n_modified_at = 3000, n_modified_by_device = ''d1'',
             n_deleted_at = Some 3000, n_created_at = 500 \<rparr>],
       tbl_todos =
         [\<lparr> t_id = ''t1'', t_user_id = ''u1'', t_note_id = Some ''n1'', t_line_ref = None,
             t_content = ''Buy'', t_due_date = Some 1500, t_completed = False,
             t_modified_at = 1000, t_modified_by_device = ''d1'', t_deleted_at = None,
             t_created_at = 1000 \<rparr>,
          \<lparr> t_id = ''t2'', t_user_id = ''u2'', t_note_id = None, t_line_ref = None,
             t_content = ''Call'', t_due_date = None, t_completed = False,
             t_modified_at = 2500, t_modified_by_device = ''d2'', t_deleted_at = None,
             t_created_at = 2500 \<rparr>],
       tbl_refresh_tokens =
         [\<lparr> rt_id = ''k1'', rt_user_id = ''u1'', rt_device_id = ''d1'',
             rt_token_hash = ''sha:refresh.k1'', rt_expires_at = 9000000, rt_created_at = 1000 \<rparr>] \<rparr>"

definition example_note :: "string \<Rightarrow> Time \<Rightarrow> Note" where
  "example_note ty at =
     \<lparr> Note.ID = ''n1'', Note.UserID = ''someone else'', Note.Title = ''Bread'',
       Note.Content = ''rye'', Note.Type = ty, Note.ModifiedAt = at,
       Note.ModifiedByDevice = ''d9'', Note.DeletedAt = Some at, Note.CreatedAt = 7 \<rparr>"

text \<open>
  The todo that the examples push, and the note \<open>n1\<close> and the todo \<open>t1\<close> as the store
  returns them.
\<close>

definition example_todo :: "string option \<Rightarrow> Time \<Rightarrow> Todo" where
  "example_todo ref at =
     \<lparr> Todo.ID = ''t1'', Todo.UserID = ''someone else'', Todo.NoteID = ref,
       Todo.LineRef = Some ''3'', Todo.Content = ''Sell'', Todo.DueDate = None,
       Todo.Completed = True, Todo.ModifiedAt = at, Todo.ModifiedByDevice = ''d9'',
       Todo.DeletedAt = None, Todo.CreatedAt = 7 \<rparr>"

definition stored_n1 :: Note where
  "stored_n1 =
     \<lparr> Note.ID = ''n1'', Note.UserID = ''u1'', Note.Title = ''Milk'', Note.Content = ''eggs'',
       Note.Type = ''note'', Note.ModifiedAt = 1000000000, Note.ModifiedByDevice = ''d1'',
       Note.DeletedAt = None, Note.CreatedAt = 1000000000 \<rparr>"

definition stored_t1 :: Todo where
  "stored_t1 =
     \<lparr> Todo.ID = ''t1'', Todo.UserID = ''u1'', Todo.NoteID = Some ''n1'', Todo.LineRef = None,
       Todo.Content = ''Buy'', Todo.DueDate = Some 1500000000, Todo.Completed = False,
       Todo.ModifiedAt = 1000000000, Todo.ModifiedByDevice = ''d1'', Todo.DeletedAt = None,
       Todo.CreatedAt = 1000000000 \<rparr>"

text \<open>The example after the refresh token \<open>refresh.k1\<close> was rotated into \<open>refresh.k2\<close>.\<close>

definition rotated_DB :: DB where
  "rotated_DB =
     example_DB\<lparr>tbl_refresh_tokens :=
       [\<lparr> rt_id = ''k2'', rt_user_id = ''u1'', rt_device_id = ''d1'',
           rt_token_hash = ''sha:refresh.k2'', rt_expires_at = 1702592000123,
           rt_created_at = 1700000000123 \<rparr>]\<rparr>"

section \<open>Facts about the SQL clauses\<close>

lemma set_limit_offset: "set (limit_offset l off rows) \<subseteq> set rows"
proof -
  have "set (drop (nat off) rows) \<subseteq> set rows" by (rule set_drop_subset)
  moreover have "set (take (nat l) (drop (nat off) rows)) \<subseteq> set (drop (nat off) rows)"
    by (rule set_take_subset)
  ultimately show ?thesis by (auto simp: limit_offset_def Let_def)
qed

lemma set_order_asc [simp]: "set (order_asc col rows) = set rows"
  by (simp add: order_asc_def)

lemma set_order_desc [simp]: "set (order_desc col rows) = set rows"
  by (simp add: order_desc_def)

lemma mset_order_asc [simp]: "mset (order_asc col rows) = mset rows"
  by (simp add: order_asc_def)

lemma mset_order_desc [simp]: "mset (order_desc col rows) = mset rows"
  by (simp add: order_desc_def)

lemma sorted_order_asc: "sorted (map col (order_asc col rows))"
  by (simp add: order_asc_def)

lemma sorted_rev_of_neg: "sorted (map (\<lambda>r. - col r) rows) \<Longrightarrow> sorted (rev (map col rows))"
  for col :: "'r \<Rightarrow> int"
  by (induction rows) (auto simp: sorted_append)

lemma sorted_order_desc: "sorted (rev (map col (order_desc col rows)))"
  by (rule sorted_rev_of_neg) (simp add: order_desc_def)

lemma sorted_map_fromMillis:
  "sorted (map col rows) \<Longrightarrow> sorted (map (\<lambda>r. fromMillis (col r)) rows)"
  by (induction rows) (auto simp: fromMillis_def)

lemma find_Some_in: "find P rows = Some r \<Longrightarrow> r \<in> set rows \<and> P r"
  by (induction rows) (auto split: if_splits)

lemma find_None_iff_no: "find P rows = None \<longleftrightarrow> (\<forall>x \<in> set rows. \<not> P x)"
  by (induction rows) auto

lemma find_sql_update_same:
  assumes "\<And>r. P r \<Longrightarrow> P (upd r)"
  shows "find P (sql_update P upd rows) = map_option upd (find P rows)"
  using assms by (induction rows) (auto simp: sql_update_def)

lemma find_sql_update_none:
  assumes "\<And>r. \<not> P (upd r)"
  shows "find P (sql_update P upd rows) = None"
  using assms by (induction rows) (auto simp: sql_update_def)

lemma in_sql_update:
  "r \<in> set rows \<Longrightarrow> hit r \<Longrightarrow> upd r \<in> set (sql_update hit upd rows)"
  by (auto simp: sql_update_def)

lemma sql_update_not_hit:
  assumes "\<And>r. \<not> hit (upd r)" and "x \<in> set (sql_update hit upd rows)"
  shows "\<not> hit x"
  using assms by (auto simp: sql_update_def split: if_splits)

lemma sql_update_members:
  assumes "x \<in> set (sql_update hit upd rows)"
  shows "x \<in> set rows \<or> (\<exists>r \<in> set rows. hit r \<and> x = upd r)"
  using assms by (auto simp: sql_update_def split: if_splits)

lemma sql_update_column:
  assumes "\<And>r. col (upd r) = col r"
  shows "map col (sql_update hit upd rows) = map col rows"
  using assms by (simp add: sql_update_def)

lemma sql_update_elsewhere:
  assumes "\<And>r. r \<in> set rows \<Longrightarrow> hit r \<Longrightarrow> \<not> keep r \<and> \<not> keep (upd r)"
  shows "filter keep (sql_update hit upd rows) = filter keep rows"
  using assms by (induction rows) (auto simp: sql_update_def)

lemma distinct_column:
  "distinct (map col rows) \<Longrightarrow> x \<in> set rows \<Longrightarrow> y \<in> set rows \<Longrightarrow> col x = col y \<Longrightarrow> x = y"
  by (auto simp: distinct_map inj_on_def)

lemma filter_at_most_one:
  assumes "length (filter P rows) \<le> 1" and "x \<in> set rows" and "P x" and "y \<in> set rows" and "P y"
  shows "x = y"
proof -
  from assms(2-5) have "x \<in> set (filter P rows)" "y \<in> set (filter P rows)" by simp_all
  with assms(1) show ?thesis
    by (cases "filter P rows") (auto split: if_splits)
qed

section \<open>Reading notes and todos\<close>

lemma scanNote_simps [simp]:
  "Note.ID (scanNote r) = n_id r" "Note.UserID (scanNote r) = n_user_id r"
  "Note.ModifiedAt (scanNote r) = fromMillis (n_modified_at r)"
  "Note.DeletedAt (scanNote r) = fromNullMillis (n_deleted_at r)"
  "Note.CreatedAt (scanNote r) = fromMillis (n_created_at r)"
  by (simp_all add: scanNote_def)

lemma got_note:
  assumes "GetNote db i u = Inr n"
  shows "\<exists>r \<in> set (tbl_notes db). n = scanNote r \<and> n_id r = i \<and> n_user_id r = u \<and> n_deleted_at r = None"
proof -
  from assms obtain r
    where "find (\<lambda>r. n_id r = i \<and> n_user_id r = u \<and> n_deleted_at r = None) (tbl_notes db) = Some r"
      and "n = scanNote r"
    by (auto simp: GetNote_def split: option.splits)
  then show ?thesis
    using find_Some_in [of "\<lambda>r. n_id r = i \<and> n_user_id r = u \<and> n_deleted_at r = None" "tbl_notes db" r]
    by blast
qed

lemma got_note_any:
  assumes "GetNoteAny db i u = Inr n"
  shows "\<exists>r \<in> set (tbl_notes db). n = scanNote r \<and> n_id r = i \<and> n_user_id r = u"
proof -
  from assms obtain r
    where "find (\<lambda>r. n_id r = i \<and> n_user_id r = u) (tbl_notes db) = Some r" and "n = scanNote r"
    by (auto simp: GetNoteAny_def split: option.splits)
  then show ?thesis
    using find_Some_in [of "\<lambda>r. n_id r = i \<and> n_user_id r = u" "tbl_notes db" r] by blast
qed

lemma listed_note:
  assumes "n \<in> set (fst (ListNotes db u l off))"
  shows "\<exists>r \<in> set (tbl_notes db). n = scanNote r \<and> n_user_id r = u \<and> n_deleted_at r = None"
proof -
  let ?rows = "filter (\<lambda>r. n_user_id r = u \<and> n_deleted_at r = None) (tbl_notes db)"
  from assms obtain r
    where "r \<in> set (limit_offset l off (order_desc n_modified_at ?rows))" "n = scanNote r"
    by (auto simp: ListNotes_def Let_def)
  moreover have "set (limit_offset l off (order_desc n_modified_at ?rows)) \<subseteq> set ?rows"
    using set_limit_offset [of l off "order_desc n_modified_at ?rows"] by simp
  ultimately show ?thesis by auto
qed

lemma searched_note:
  assumes "n \<in> set (fst (SearchNotes db u q l off))"
  shows "\<exists>r \<in> set (tbl_notes db). n = scanNote r \<and> n_user_id r = u \<and> n_deleted_at r = None
           \<and> (LIKE (n_title r) (''%'' @ q @ ''%'') \<or> LIKE (n_content r) (''%'' @ q @ ''%''))"
proof -
  let ?rows = "filter (\<lambda>r. n_user_id r = u \<and> n_deleted_at r = None
       \<and> (LIKE (n_title r) (''%'' @ q @ ''%'') \<or> LIKE (n_content r) (''%'' @ q @ ''%'')))
     (tbl_notes db)"
  from assms obtain r
    where "r \<in> set (limit_offset l off (order_desc n_modified_at ?rows))" "n = scanNote r"
    by (auto simp: SearchNotes_def Let_def)
  moreover have "set (limit_offset l off (order_desc n_modified_at ?rows)) \<subseteq> set ?rows"
    using set_limit_offset [of l off "order_desc n_modified_at ?rows"] by simp
  ultimately show ?thesis by auto
qed

lemma changed_note:
  "r \<in> set (tbl_notes db) \<Longrightarrow> n_user_id r = u \<Longrightarrow> T < n_modified_at r
     \<Longrightarrow> scanNote r \<in> set (GetNoteChangesSince db u T)"
  by (simp add: GetNoteChangesSince_def)

lemma note_changes:
  "mset (GetNoteChangesSince db u T)
     = mset (map scanNote (filter (\<lambda>r. n_user_id r = u \<and> T < n_modified_at r) (tbl_notes db)))
   \<and> sorted (map Note.ModifiedAt (GetNoteChangesSince db u T))"
proof -
  let ?rows = "filter (\<lambda>r. n_user_id r = u \<and> T < n_modified_at r) (tbl_notes db)"
  have "sorted (map (\<lambda>r. fromMillis (n_modified_at r)) (order_asc n_modified_at ?rows))"
    by (rule sorted_map_fromMillis) (rule sorted_order_asc)
  then have "sorted (map Note.ModifiedAt (GetNoteChangesSince db u T))"
    by (simp add: GetNoteChangesSince_def comp_def)
  moreover have "mset (GetNoteChangesSince db u T) = mset (map scanNote ?rows)"
    by (simp add: GetNoteChangesSince_def)
  ultimately show ?thesis by blast
qed

lemma scanTodo_simps [simp]:
  "Todo.ID (scanTodo r) = t_id r" "Todo.UserID (scanTodo r) = t_user_id r"
  "Todo.ModifiedAt (scanTodo r) = fromMillis (t_modified_at r)"
  "Todo.DeletedAt (scanTodo r) = fromNullMillis (t_deleted_at r)"
  "Todo.CreatedAt (scanTodo r) = fromMillis (t_created_at r)"
  by (simp_all add: scanTodo_def)

lemma got_todo:
  assumes "GetTodo db i u = Inr n"
  shows "\<exists>r \<in> set (tbl_todos db). n = scanTodo r \<and> t_id r = i \<and> t_user_id r = u \<and> t_deleted_at r = None"
proof -
  from assms obtain r
    where "find (\<lambda>r. t_id r = i \<and> t_user_id r = u \<and> t_deleted_at r = None) (tbl_todos db) = Some r"
      and "n = scanTodo r"
    by (auto simp: GetTodo_def split: option.splits)
  then show ?thesis
    using find_Some_in [of "\<lambda>r. t_id r = i \<and> t_user_id r = u \<and> t_deleted_at r = None" "tbl_todos db" r]
    by blast
qed

lemma got_todo_any:
  assumes "GetTodoAny db i u = Inr n"
  shows "\<exists>r \<in> set (tbl_todos db). n = scanTodo r \<and> t_id r = i \<and> t_user_id r = u"
proof -
  from assms obtain r
    where "find (\<lambda>r. t_id r = i \<and> t_user_id r = u) (tbl_todos db) = Some r" and "n = scanTodo r"
    by (auto simp: GetTodoAny_def split: option.splits)
  then show ?thesis
    using find_Some_in [of "\<lambda>r. t_id r = i \<and> t_user_id r = u" "tbl_todos db" r] by blast
qed

lemma listed_todo:
  assumes "n \<in> set (fst (ListTodos db u l off))"
  shows "\<exists>r \<in> set (tbl_todos db). n = scanTodo r \<and> t_user_id r = u \<and> t_deleted_at r = None"
proof -
  let ?rows = "filter (\<lambda>r. t_user_id r = u \<and> t_deleted_at r = None) (tbl_todos db)"
  from assms obtain r
    where "r \<in> set (limit_offset l off (order_desc t_modified_at ?rows))" "n = scanTodo r"
    by (auto simp: ListTodos_def Let_def)
  moreover have "set (limit_offset l off (order_desc t_modified_at ?rows)) \<subseteq> set ?rows"
    using set_limit_offset [of l off "order_desc t_modified_at ?rows"] by simp
  ultimately show ?thesis by auto
qed

lemma overdue_todo:
  assumes "n \<in> set (GetOverdueTodos db clock u)"
  shows "\<exists>r \<in> set (tbl_todos db). n = scanTodo r \<and> t_user_id r = u \<and> t_deleted_at r = None"
  using assms by (auto simp: GetOverdueTodos_def Let_def)

lemma changed_todo:
  "r \<in> set (tbl_todos db) \<Longrightarrow> t_user_id r = u \<Longrightarrow> T < t_modified_at r
     \<Longrightarrow> scanTodo r \<in> set (GetTodoChangesSince db u T)"
  by (simp add: GetTodoChangesSince_def)

lemma todo_changes:
  "mset (GetTodoChangesSince db u T)
     = mset (map scanTodo (filter (\<lambda>r. t_user_id r = u \<and> T < t_modified_at r) (tbl_todos db)))
   \<and> sorted (map Todo.ModifiedAt (GetTodoChangesSince db u T))"
proof -
  let ?rows = "filter (\<lambda>r. t_user_id r = u \<and> T < t_modified_at r) (tbl_todos db)"
  have "sorted (map (\<lambda>r. fromMillis (t_modified_at r)) (order_asc t_modified_at ?rows))"
    by (rule sorted_map_fromMillis) (rule sorted_order_asc)
  then have "sorted (map Todo.ModifiedAt (GetTodoChangesSince db u T))"
    by (simp add: GetTodoChangesSince_def comp_def)
  moreover have "mset (GetTodoChangesSince db u T) = mset (map scanTodo ?rows)"
    by (simp add: GetTodoChangesSince_def)
  ultimately show ?thesis by blast
qed

section \<open>Sync push: last write wins\<close>

lemma scanNote_note_set: "scanNote (note_set n r) = note_overwrite (scanNote r) n"
  by (simp add: scanNote_def note_set_def note_overwrite_def)

lemma scanTodo_todo_set: "scanTodo (todo_set t r) = todo_overwrite (scanTodo r) t"
  by (simp add: scanTodo_def todo_set_def todo_overwrite_def)

lemma note_set_UserID [simp]: "note_set (n\<lparr>Note.UserID := u\<rparr>) = note_set n"
  by (rule ext) (simp add: note_set_def)

lemma todo_set_UserID [simp]: "todo_set (t\<lparr>Todo.UserID := u\<rparr>) = todo_set t"
  by (rule ext) (simp add: todo_set_def)

lemma UpsertNote_existing:
  assumes "GetNoteAny db (Note.ID n) (Note.UserID n) = Inr existing"
  shows "UpsertNote db n =
     (if After (Note.ModifiedAt n) (Note.ModifiedAt existing) then
        (if check_note_type (Note.Type n) then
           Inr (db\<lparr>tbl_notes :=
                  sql_update (\<lambda>r. n_id r = Note.ID n \<and> n_user_id r = Note.UserID n) (note_set n)
                    (tbl_notes db)\<rparr>, None)
         else Inl (ErrEngine ''upsert note''))
      else Inr (db, Some existing))"
  using assms by (simp add: UpsertNote_def)

lemma UpsertTodo_existing:
  assumes "GetTodoAny db (Todo.ID t) (Todo.UserID t) = Inr existing"
  shows "UpsertTodo db t =
     (if After (Todo.ModifiedAt t) (Todo.ModifiedAt existing) then
        (if note_ref_ok db (Todo.NoteID t) then
           Inr (db\<lparr>tbl_todos :=
                  sql_update (\<lambda>r. t_id r = Todo.ID t \<and> t_user_id r = Todo.UserID t) (todo_set t)
                    (tbl_todos db)\<rparr>, None)
         else Inl (ErrEngine ''upsert todo''))
      else Inr (db, Some existing))"
  using assms by (simp add: UpsertTodo_def)

lemma GetNoteAny_after_update:
  assumes "GetNoteAny db i u = Inr existing"
  shows "GetNoteAny (db\<lparr>tbl_notes := sql_update (\<lambda>r. n_id r = i \<and> n_user_id r = u) (note_set n) (tbl_notes db)\<rparr>) i u
       = Inr (note_overwrite existing n)"
proof -
  define hit :: "note_row \<Rightarrow> bool" where "hit = (\<lambda>r. n_id r = i \<and> n_user_id r = u)"
  from assms obtain r where r: "find hit (tbl_notes db) = Some r" and e: "existing = scanNote r"
    by (auto simp: GetNoteAny_def hit_def split: option.splits)
  have "hit x \<Longrightarrow> hit (note_set n x)" for x
    by (simp add: hit_def note_set_def)
  then have "find hit (sql_update hit (note_set n) (tbl_notes db)) = map_option (note_set n) (find hit (tbl_notes db))"
    by (rule find_sql_update_same)
  with r have "find hit (sql_update hit (note_set n) (tbl_notes db)) = Some (note_set n r)" by simp
  then show ?thesis
    by (simp add: GetNoteAny_def hit_def e scanNote_note_set)
qed

lemma GetTodoAny_after_update:
  assumes "GetTodoAny db i u = Inr existing"
  shows "GetTodoAny (db\<lparr>tbl_todos := sql_update (\<lambda>r. t_id r = i \<and> t_user_id r = u) (todo_set t) (tbl_todos db)\<rparr>) i u
       = Inr (todo_overwrite existing t)"
proof -
  define hit :: "todo_row \<Rightarrow> bool" where "hit = (\<lambda>r. t_id r = i \<and> t_user_id r = u)"
  from assms obtain r where r: "find hit (tbl_todos db) = Some r" and e: "existing = scanTodo r"
    by (auto simp: GetTodoAny_def hit_def split: option.splits)
  have "hit x \<Longrightarrow> hit (todo_set t x)" for x
    by (simp add: hit_def todo_set_def)
  then have "find hit (sql_update hit (todo_set t) (tbl_todos db)) = map_option (todo_set t) (find hit (tbl_todos db))"
    by (rule find_sql_update_same)
  with r have "find hit (sql_update hit (todo_set t) (tbl_todos db)) = Some (todo_set t r)" by simp
  then show ?thesis
    by (simp add: GetTodoAny_def hit_def e scanTodo_todo_set)
qed

lemma upsert_note_accepts:
  assumes "GetNoteAny db (Note.ID n) u = Inr existing"
    and "After (Note.ModifiedAt n) (Note.ModifiedAt existing)"
    and "check_note_type (Note.Type n)"
  shows "\<exists>db'. UpsertNote db (n\<lparr>Note.UserID := u\<rparr>) = Inr (db', None)
      \<and> GetNoteAny db' (Note.ID n) u = Inr (note_overwrite existing n)
      \<and> push_notes u (n # ns) db cs acc = push_notes u ns db' cs (acc + 1)"
proof -
  let ?m = "n\<lparr>Note.UserID := u\<rparr>"
  let ?db' = "db\<lparr>tbl_notes := sql_update (\<lambda>r. n_id r = Note.ID n \<and> n_user_id r = u) (note_set n) (tbl_notes db)\<rparr>"
  have ex: "GetNoteAny db (Note.ID ?m) (Note.UserID ?m) = Inr existing"
    using assms(1) by simp
  have up: "UpsertNote db ?m = Inr (?db', None)"
    using UpsertNote_existing [OF ex] assms(2,3) by simp
  have "GetNoteAny ?db' (Note.ID n) u = Inr (note_overwrite existing n)"
    using assms(1) by (rule GetNoteAny_after_update)
  moreover have "push_notes u (n # ns) db cs acc = push_notes u ns ?db' cs (acc + 1)"
    using up by simp
  ultimately show ?thesis using up by blast
qed

lemma upsert_note_conflict:
  assumes "GetNoteAny db (Note.ID n) u = Inr existing"
    and "\<not> After (Note.ModifiedAt n) (Note.ModifiedAt existing)"
  shows "UpsertNote db (n\<lparr>Note.UserID := u\<rparr>) = Inr (db, Some existing)
      \<and> push_notes u (n # ns) db cs acc
          = push_notes u ns db
              (cs @ [\<lparr> SyncConflict.Type = ''note'', SyncConflict.ID = Note.ID n,
                       ServerNote = Some existing, ServerTodo = None \<rparr>]) acc"
proof -
  let ?m = "n\<lparr>Note.UserID := u\<rparr>"
  have ex: "GetNoteAny db (Note.ID ?m) (Note.UserID ?m) = Inr existing"
    using assms(1) by simp
  have up: "UpsertNote db ?m = Inr (db, Some existing)"
    using UpsertNote_existing [OF ex] assms(2) by simp
  then show ?thesis by simp
qed

lemma upsert_note_rejected:
  assumes "GetNoteAny db (Note.ID n) u = Inr existing"
    and "After (Note.ModifiedAt n) (Note.ModifiedAt existing)"
    and "\<not> check_note_type (Note.Type n)"
  shows "UpsertNote db (n\<lparr>Note.UserID := u\<rparr>) = Inl (ErrEngine ''upsert note'')
      \<and> push_notes u (n # ns) db cs acc = (db, None)"
proof -
  let ?m = "n\<lparr>Note.UserID := u\<rparr>"
  have ex: "GetNoteAny db (Note.ID ?m) (Note.UserID ?m) = Inr existing"
    using assms(1) by simp
  have up: "UpsertNote db ?m = Inl (ErrEngine ''upsert note'')"
    using UpsertNote_existing [OF ex] assms(2,3) by simp
  then show ?thesis by simp
qed

lemma upsert_todo_accepts:
  assumes "GetTodoAny db (Todo.ID t) u = Inr existing"
    and "After (Todo.ModifiedAt t) (Todo.ModifiedAt existing)"
    and "note_ref_ok db (Todo.NoteID t)"
  shows "\<exists>db'. UpsertTodo db (t\<lparr>Todo.UserID := u\<rparr>) = Inr (db', None)
      \<and> GetTodoAny db' (Todo.ID t) u = Inr (todo_overwrite existing t)
      \<and> push_todos u (t # ts) db cs acc = push_todos u ts db' cs (acc + 1)"
proof -
  let ?m = "t\<lparr>Todo.UserID := u\<rparr>"
  let ?db' = "db\<lparr>tbl_todos := sql_update (\<lambda>r. t_id r = Todo.ID t \<and> t_user_id r = u) (todo_set t) (tbl_todos db)\<rparr>"
  have ex: "GetTodoAny db (Todo.ID ?m) (Todo.UserID ?m) = Inr existing"
    using assms(1) by simp
  have up: "UpsertTodo db ?m = Inr (?db', None)"
    using UpsertTodo_existing [OF ex] assms(2,3) by simp
  have "GetTodoAny ?db' (Todo.ID t) u = Inr (todo_overwrite existing t)"
    using assms(1) by (rule GetTodoAny_after_update)
  moreover have "push_todos u (t # ts) db cs acc = push_todos u ts ?db' cs (acc + 1)"
    using up by simp
  ultimately show ?thesis using up by blast
qed

lemma upsert_todo_conflict:
  assumes "GetTodoAny db (Todo.ID t) u = Inr existing"
    and "\<not> After (Todo.ModifiedAt t) (Todo.ModifiedAt existing)"
  shows "UpsertTodo db (t\<lparr>Todo.UserID := u\<rparr>) = Inr (db, Some existing)
      \<and> push_todos u (t # ts) db cs acc
          = push_todos u ts db
              (cs @ [\<lparr> SyncConflict.Type = ''todo'', SyncConflict.ID = Todo.ID t,
                       ServerNote = None, ServerTodo = Some existing \<rparr>]) acc"
proof -
  let ?m = "t\<lparr>Todo.UserID := u\<rparr>"
  have ex: "GetTodoAny db (Todo.ID ?m) (Todo.UserID ?m) = Inr existing"
    using assms(1) by simp
  have up: "UpsertTodo db ?m = Inr (db, Some existing)"
    using UpsertTodo_existing [OF ex] assms(2) by simp
  then show ?thesis by simp
qed

lemma upsert_todo_rejected:
  assumes "GetTodoAny db (Todo.ID t) u = Inr existing"
    and "After (Todo.ModifiedAt t) (Todo.ModifiedAt existing)"
    and "\<not> note_ref_ok db (Todo.NoteID t)"
  shows "UpsertTodo db (t\<lparr>Todo.UserID := u\<rparr>) = Inl (ErrEngine ''upsert todo'')
      \<and> push_todos u (t # ts) db cs acc = (db, None)"
proof -
  let ?m = "t\<lparr>Todo.UserID := u\<rparr>"
  have ex: "GetTodoAny db (Todo.ID ?m) (Todo.UserID ?m) = Inr existing"
    using assms(1) by simp
  have up: "UpsertTodo db ?m = Inl (ErrEngine ''upsert todo'')"
    using UpsertTodo_existing [OF ex] assms(2,3) by simp
  then show ?thesis by simp
qed




lemma upsert_note_frame:
  assumes ex: "GetNoteAny db (Note.ID n) (Note.UserID n) = Inr existing"
    and up: "UpsertNote db n = Inr (db', None)"
  shows "GetNoteAny db' (Note.ID n) (Note.UserID n) = Inr (note_overwrite existing n)
      \<and> map n_id (tbl_notes db') = map n_id (tbl_notes db)
      \<and> map n_user_id (tbl_notes db') = map n_user_id (tbl_notes db)
      \<and> map n_created_at (tbl_notes db') = map n_created_at (tbl_notes db)
      \<and> filter (\<lambda>r. \<not> (n_id r = Note.ID n \<and> n_user_id r = Note.UserID n)) (tbl_notes db')
          = filter (\<lambda>r. \<not> (n_id r = Note.ID n \<and> n_user_id r = Note.UserID n)) (tbl_notes db)
      \<and> tbl_users db' = tbl_users db \<and> tbl_todos db' = tbl_todos db
      \<and> tbl_refresh_tokens db' = tbl_refresh_tokens db"
proof -
  define hit :: "note_row \<Rightarrow> bool"
    where "hit = (\<lambda>r. n_id r = Note.ID n \<and> n_user_id r = Note.UserID n)"
  from UpsertNote_existing [OF ex] up
  have db': "db' = db\<lparr>tbl_notes := sql_update hit (note_set n) (tbl_notes db)\<rparr>"
    by (auto simp: hit_def split: if_splits)
  have 1: "GetNoteAny db' (Note.ID n) (Note.UserID n) = Inr (note_overwrite existing n)"
    unfolding db' hit_def using ex by (rule GetNoteAny_after_update)
  have 2: "map n_id (tbl_notes db') = map n_id (tbl_notes db)"
    unfolding db' by (simp add: sql_update_column note_set_def)
  have 3: "map n_user_id (tbl_notes db') = map n_user_id (tbl_notes db)"
    unfolding db' by (simp add: sql_update_column note_set_def)
  have 4: "map n_created_at (tbl_notes db') = map n_created_at (tbl_notes db)"
    unfolding db' by (simp add: sql_update_column note_set_def)
  have "filter (\<lambda>r. \<not> hit r) (sql_update hit (note_set n) (tbl_notes db))
      = filter (\<lambda>r. \<not> hit r) (tbl_notes db)"
    by (rule sql_update_elsewhere) (simp add: hit_def note_set_def)
  then have 5: "filter (\<lambda>r. \<not> (n_id r = Note.ID n \<and> n_user_id r = Note.UserID n)) (tbl_notes db')
          = filter (\<lambda>r. \<not> (n_id r = Note.ID n \<and> n_user_id r = Note.UserID n)) (tbl_notes db)"
    unfolding db' hit_def by simp
  have 6: "tbl_users db' = tbl_users db \<and> tbl_todos db' = tbl_todos db
      \<and> tbl_refresh_tokens db' = tbl_refresh_tokens db"
    unfolding db' by simp
  from 1 2 3 4 5 6 show ?thesis by blast
qed

lemma upsert_todo_frame:
  assumes ex: "GetTodoAny db (Todo.ID t) (Todo.UserID t) = Inr existing"
    and up: "UpsertTodo db t = Inr (db', None)"
  shows "GetTodoAny db' (Todo.ID t) (Todo.UserID t) = Inr (todo_overwrite existing t)
      \<and> map t_id (tbl_todos db') = map t_id (tbl_todos db)
      \<and> map t_user_id (tbl_todos db') = map t_user_id (tbl_todos db)
      \<and> map t_created_at (tbl_todos db') = map t_created_at (tbl_todos db)
      \<and> filter (\<lambda>r. \<not> (t_id r = Todo.ID t \<and> t_user_id r = Todo.UserID t)) (tbl_todos db')
          = filter (\<lambda>r. \<not> (t_id r = Todo.ID t \<and> t_user_id r = Todo.UserID t)) (tbl_todos db)
      \<and> tbl_users db' = tbl_users db \<and> tbl_notes db' = tbl_notes db
      \<and> tbl_refresh_tokens db' = tbl_refresh_tokens db"
proof -
  define hit :: "todo_row \<Rightarrow> bool"
    where "hit = (\<lambda>r. t_id r = Todo.ID t \<and> t_user_id r = Todo.UserID t)"
  from UpsertTodo_existing [OF ex] up
  have db': "db' = db\<lparr>tbl_todos := sql_update hit (todo_set t) (tbl_todos db)\<rparr>"
    by (auto simp: hit_def split: if_splits)
  have 1: "GetTodoAny db' (Todo.ID t) (Todo.UserID t) = Inr (todo_overwrite existing t)"
    unfolding db' hit_def using ex by (rule GetTodoAny_after_update)
  have 2: "map t_id (tbl_todos db') = map t_id (tbl_todos db)"
    unfolding db' by (simp add: sql_update_column todo_set_def)
  have 3: "map t_user_id (tbl_todos db') = map t_user_id (tbl_todos db)"
    unfolding db' by (simp add: sql_update_column todo_set_def)
  have 4: "map t_created_at (tbl_todos db') = map t_created_at (tbl_todos db)"
    unfolding db' by (simp add: sql_update_column todo_set_def)
  have "filter (\<lambda>r. \<not> hit r) (sql_update hit (todo_set t) (tbl_todos db))
      = filter (\<lambda>r. \<not> hit r) (tbl_todos db)"
    by (rule sql_update_elsewhere) (simp add: hit_def todo_set_def)
  then have 5: "filter (\<lambda>r. \<not> (t_id r = Todo.ID t \<and> t_user_id r = Todo.UserID t)) (tbl_todos db')
          = filter (\<lambda>r. \<not> (t_id r = Todo.ID t \<and> t_user_id r = Todo.UserID t)) (tbl_todos db)"
    unfolding db' hit_def by simp
  have 6: "tbl_users db' = tbl_users db \<and> tbl_notes db' = tbl_notes db
      \<and> tbl_refresh_tokens db' = tbl_refresh_tokens db"
    unfolding db' by simp
  from 1 2 3 4 5 6 show ?thesis by blast
qed

lemma overwrite_keeps [simp]:
  "Note.ID (note_overwrite existing n) = Note.ID existing"
  "Note.UserID (note_overwrite existing n) = Note.UserID existing"
  "Note.CreatedAt (note_overwrite existing n) = Note.CreatedAt existing"
  "Todo.ID (todo_overwrite existing' t) = Todo.ID existing'"
  "Todo.UserID (todo_overwrite existing' t) = Todo.UserID existing'"
  "Todo.CreatedAt (todo_overwrite existing' t) = Todo.CreatedAt existing'"
  by (simp_all add: note_overwrite_def todo_overwrite_def)

text \<open>
  C10. For every push-upsert accepted as an overwrite of an existing note or todo, the
  stored record keeps the id, the user and the creation time of the existing server
  record, whatever \<open>created_at\<close> the client sent: the record read back is the existing one
  with only the mutable fields replaced, the columns \<open>id\<close>, \<open>user_id\<close> and \<open>created_at\<close> of
  the table are what they were, every other row is untouched, and so are the other
  tables.
\<close>

theorem overwrite_frame:
  "(GetNoteAny db (Note.ID n) (Note.UserID n) = Inr existing
      \<and> UpsertNote db n = Inr (db', None) \<longrightarrow>
        GetNoteAny db' (Note.ID n) (Note.UserID n) = Inr (note_overwrite existing n)
      \<and> Note.ID (note_overwrite existing n) = Note.ID existing
      \<and> Note.UserID (note_overwrite existing n) = Note.UserID existing
      \<and> Note.CreatedAt (note_overwrite existing n) = Note.CreatedAt existing
      \<and> map n_id (tbl_notes db') = map n_id (tbl_notes db)
      \<and> map n_user_id (tbl_notes db') = map n_user_id (tbl_notes db)
      \<and> map n_created_at (tbl_notes db') = map n_created_at (tbl_notes db)
      \<and> filter (\<lambda>r. \<not> (n_id r = Note.ID n \<and> n_user_id r = Note.UserID n)) (tbl_notes db')
          = filter (\<lambda>r. \<not> (n_id r = Note.ID n \<and> n_user_id r = Note.UserID n)) (tbl_notes db)
      \<and> tbl_users db' = tbl_users db \<and> tbl_todos db' = tbl_todos db
      \<and> tbl_refresh_tokens db' = tbl_refresh_tokens db)
   \<and> (GetTodoAny db (Todo.ID t) (Todo.UserID t) = Inr existing'
      \<and> UpsertTodo db t = Inr (db'', None) \<longrightarrow>
        GetTodoAny db'' (Todo.ID t) (Todo.UserID t) = Inr (todo_overwrite existing' t)
      \<and> Todo.ID (todo_overwrite existing' t) = Todo.ID existing'
      \<and> Todo.UserID (todo_overwrite existing' t) = Todo.UserID existing'
      \<and> Todo.CreatedAt (todo_overwrite existing' t) = Todo.CreatedAt existing'
      \<and> map t_id (tbl_todos db'') = map t_id (tbl_todos db)
      \<and> map t_user_id (tbl_todos db'') = map t_user_id (tbl_todos db)
      \<and> map t_created_at (tbl_todos db'') = map t_created_at (tbl_todos db)
      \<and> filter (\<lambda>r. \<not> (t_id r = Todo.ID t \<and> t_user_id r = Todo.UserID t)) (tbl_todos db'')
          = filter (\<lambda>r. \<not> (t_id r = Todo.ID t \<and> t_user_id r = Todo.UserID t)) (tbl_todos db)
      \<and> tbl_users db'' = tbl_users db \<and> tbl_notes db'' = tbl_notes db
      \<and> tbl_refresh_tokens db'' = tbl_refresh_tokens db)"
  using upsert_note_frame [of db n existing db'] upsert_todo_frame [of db t existing' db'']
  by simp

text \<open>
  The incoming note and todo claim to be created at 7 ns; the stored creation times stay
  1000 ms.
\<close>

theorem overwrite_frame_witness:
  "GetNoteAny example_DB (Note.ID ((example_note ''note'' 2000000000)\<lparr>Note.UserID := ''u1''\<rparr>))
       (Note.UserID ((example_note ''note'' 2000000000)\<lparr>Note.UserID := ''u1''\<rparr>))
     = Inr stored_n1
   \<and> UpsertNote example_DB ((example_note ''note'' 2000000000)\<lparr>Note.UserID := ''u1''\<rparr>)
     = Inr (example_DB\<lparr>tbl_notes :=
              [\<lparr> n_id = ''n1'', n_user_id = ''u1'', n_title = ''Bread'', n_content = ''rye'',
                  n_type = ''note'', n_modified_at = 2000, n_modified_by_device = ''d9'',
                  n_deleted_at = Some 2000, n_created_at = 1000 \<rparr>,
               \<lparr> n_id = ''n2'', n_user_id = ''u2'', n_title = ''Private'', n_content = ''secret'',
                  n_type = ''note'', n_modified_at = 2000, n_modified_by_device = ''d2'',
                  n_deleted_at = None, n_created_at = 2000 \<rparr>,
               \<lparr> n_id = ''n3'', n_user_id = ''u1'', n_title = ''Old'', n_content = ''gone'',
                  n_type = ''todo_list'', n_modified_at = 3000, n_modified_by_device = ''d1'',
                  n_deleted_at = Some 3000, n_created_at = 500 \<rparr>]\<rparr>, None)
   \<and> Note.CreatedAt (example_note ''note'' 2000000000) = 7
   \<and> map n_created_at
        [\<lparr> n_id = ''n1'', n_user_id = ''u1'', n_title = ''Bread'', n_content = ''rye'',
            n_type = ''note'', n_modified_at = 2000, n_modified_by_device = ''d9'',
            n_deleted_at = Some 2000, n_created_at = 1000 \<rparr>,
         \<lparr> n_id = ''n2'', n_user_id = ''u2'', n_title = ''Private'', n_content = ''secret'',
            n_type = ''note'', n_modified_at = 2000, n_modified_by_device = ''d2'',
            n_deleted_at = None, n_created_at = 2000 \<rparr>,
         \<lparr> n_id = ''n3'', n_user_id = ''u1'', n_title = ''Old'', n_content = ''gone'',
            n_type = ''todo_list'', n_modified_at = 3000, n_modified_by_device = ''d1'',
            n_deleted_at = Some 3000, n_created_at = 500 \<rparr>]
      = map n_created_at (tbl_notes example_DB)
   \<and> GetTodoAny example_DB (Todo.ID ((example_todo (Some ''n2'') 2000000000)\<lparr>Todo.UserID := ''u1''\<rparr>))
       (Todo.UserID ((example_todo (Some ''n2'') 2000000000)\<lparr>Todo.UserID := ''u1''\<rparr>))
     = Inr stored_t1
   \<and> UpsertTodo example_DB ((example_todo (Some ''n2'') 2000000000)\<lparr>Todo.UserID := ''u1''\<rparr>)
     = Inr (example_DB\<lparr>tbl_todos :=
              [\<lparr> t_id = ''t1'', t_user_id = ''u1'', t_note_id = Some ''n2'', t_line_ref = Some ''3'',
                  t_content = ''Sell'', t_due_date = None, t_completed = True,
                  t_modified_at = 2000, t_modified_by_device = ''d9'', t_deleted_at = None,
                  t_created_at = 1000 \<rparr>,
               \<lparr> t_id = ''t2'', t_user_id = ''u2'', t_note_id = None, t_line_ref = None,
                  t_content = ''Call'', t_due_date = None, t_completed = False,
                  t_modified_at = 2500, t_modified_by_device = ''d2'', t_deleted_at = None,
                  t_created_at = 2500 \<rparr>]\<rparr>, None)
   \<and> Todo.CreatedAt (example_todo (Some ''n2'') 2000000000) = 7
   \<and> GetTodoAny
        (example_DB\<lparr>tbl_todos :=
              [\<lparr> t_id = ''t1'', t_user_id = ''u1'', t_note_id = Some ''n2'', t_line_ref = Some ''3'',
                  t_content = ''Sell'', t_due_date = None, t_completed = True,
                  t_modified_at = 2000, t_modified_by_device = ''d9'', t_deleted_at = None,
                  t_created_at = 1000 \<rparr>,
               \<lparr> t_id = ''t2'', t_user_id = ''u2'', t_note_id = None, t_line_ref = None,
                  t_content = ''Call'', t_due_date = None, t_completed = False,
                  t_modified_at = 2500, t_modified_by_device = ''d2'', t_deleted_at = None,
                  t_created_at = 2500 \<rparr>]\<rparr>) ''t1'' ''u1''
     = Inr \<lparr> Todo.ID = ''t1'', Todo.UserID = ''u1'', Todo.NoteID = Some ''n2'',
             Todo.LineRef = Some ''3'', Todo.Content = ''Sell'', Todo.DueDate = None,
             Todo.Completed = True, Todo.ModifiedAt = 2000000000,
             Todo.ModifiedByDevice = ''d9'', Todo.DeletedAt = None,
             Todo.CreatedAt = 1000000000 \<rparr>"
proof -
  let ?n = "(example_note ''note'' 2000000000)\<lparr>Note.UserID := ''u1''\<rparr>"
  let ?t = "(example_todo (Some ''n2'') 2000000000)\<lparr>Todo.UserID := ''u1''\<rparr>"
  let ?rows = "[\<lparr> n_id = ''n1'', n_user_id = ''u1'', n_title = ''Bread'', n_content = ''rye'',
            n_type = ''note'', n_modified_at = 2000, n_modified_by_device = ''d9'',
            n_deleted_at = Some 2000, n_created_at = 1000 \<rparr>,
         \<lparr> n_id = ''n2'', n_user_id = ''u2'', n_title = ''Private'', n_content = ''secret'',
            n_type = ''note'', n_modified_at = 2000, n_modified_by_device = ''d2'',
            n_deleted_at = None, n_created_at = 2000 \<rparr>,
         \<lparr> n_id = ''n3'', n_user_id = ''u1'', n_title = ''Old'', n_content = ''gone'',
            n_type = ''todo_list'', n_modified_at = 3000, n_modified_by_device = ''d1'',
            n_deleted_at = Some 3000, n_created_at = 500 \<rparr>]"
  let ?rows' = "[\<lparr> t_id = ''t1'', t_user_id = ''u1'', t_note_id = Some ''n2'', t_line_ref = Some ''3'',
                  t_content = ''Sell'', t_due_date = None, t_completed = True,
                  t_modified_at = 2000, t_modified_by_device = ''d9'', t_deleted_at = None,
                  t_created_at = 1000 \<rparr>,
               \<lparr> t_id = ''t2'', t_user_id = ''u2'', t_note_id = None, t_line_ref = None,
                  t_content = ''Call'', t_due_date = None, t_completed = False,
                  t_modified_at = 2500, t_modified_by_device = ''d2'', t_deleted_at = None,
                  t_created_at = 2500 \<rparr>]"
  have g: "GetNoteAny example_DB (Note.ID ?n) (Note.UserID ?n) = Inr stored_n1"
    by code_simp
  have u: "UpsertNote example_DB ?n = Inr (example_DB\<lparr>tbl_notes := ?rows\<rparr>, None)"
    by code_simp
  have c: "Note.CreatedAt (example_note ''note'' 2000000000) = 7"
    by code_simp
  have g': "GetTodoAny example_DB (Todo.ID ?t) (Todo.UserID ?t) = Inr stored_t1"
    by code_simp
  have u': "UpsertTodo example_DB ?t = Inr (example_DB\<lparr>tbl_todos := ?rows'\<rparr>, None)"
    by code_simp
  have c': "Todo.CreatedAt (example_todo (Some ''n2'') 2000000000) = 7"
    by code_simp
  have i': "Todo.ID ?t = ''t1''" "Todo.UserID ?t = ''u1''"
    by (simp_all add: example_todo_def)
  have ow: "todo_overwrite stored_t1 ?t
      = \<lparr> Todo.ID = ''t1'', Todo.UserID = ''u1'', Todo.NoteID = Some ''n2'',
             Todo.LineRef = Some ''3'', Todo.Content = ''Sell'', Todo.DueDate = None,
             Todo.Completed = True, Todo.ModifiedAt = 2000000000,
             Todo.ModifiedByDevice = ''d9'', Todo.DeletedAt = None,
             Todo.CreatedAt = 1000000000 \<rparr>"
    by code_simp
  from overwrite_frame [of example_DB ?n stored_n1 "example_DB\<lparr>tbl_notes := ?rows\<rparr>"
      ?t stored_t1 "example_DB\<lparr>tbl_todos := ?rows'\<rparr>"] g u g' u'
  have "map n_created_at (tbl_notes (example_DB\<lparr>tbl_notes := ?rows\<rparr>))
      = map n_created_at (tbl_notes example_DB)"
    and r: "GetTodoAny (example_DB\<lparr>tbl_todos := ?rows'\<rparr>) (Todo.ID ?t) (Todo.UserID ?t)
      = Inr (todo_overwrite stored_t1 ?t)"
    by blast+
  then have "map n_created_at ?rows = map n_created_at (tbl_notes example_DB)"
    by simp
  with g u c g' u' c' r [unfolded i' ow] show ?thesis by blast
qed

section \<open>Changes since a cursor\<close>

text \<open>
  C2. For every user and every millisecond cursor \<open>T\<close>, the changes-since query for notes,
  and likewise for todos, returns exactly the rows of that user whose \<open>modified_at\<close> is
  strictly greater than \<open>T\<close> (as a multiset: each such row once, soft-deleted or not, and
  nothing else, so never a row modified at \<open>T\<close>), ordered by \<open>modified_at\<close> ascending.
\<close>

theorem changes_since_exact:
  "mset (GetNoteChangesSince db u T)
     = mset (map scanNote (filter (\<lambda>r. n_user_id r = u \<and> T < n_modified_at r) (tbl_notes db)))
   \<and> sorted (map Note.ModifiedAt (GetNoteChangesSince db u T))
   \<and> (\<forall>n \<in> set (GetNoteChangesSince db u T). Note.UserID n = u \<and> fromMillis T < Note.ModifiedAt n)
   \<and> mset (GetTodoChangesSince db u T)
     = mset (map scanTodo (filter (\<lambda>r. t_user_id r = u \<and> T < t_modified_at r) (tbl_todos db)))
   \<and> sorted (map Todo.ModifiedAt (GetTodoChangesSince db u T))
   \<and> (\<forall>t \<in> set (GetTodoChangesSince db u T). Todo.UserID t = u \<and> fromMillis T < Todo.ModifiedAt t)"
proof -
  have n: "\<forall>n \<in> set (GetNoteChangesSince db u T). Note.UserID n = u \<and> fromMillis T < Note.ModifiedAt n"
    by (auto simp: GetNoteChangesSince_def fromMillis_def)
  have t: "\<forall>t \<in> set (GetTodoChangesSince db u T). Todo.UserID t = u \<and> fromMillis T < Todo.ModifiedAt t"
    by (auto simp: GetTodoChangesSince_def fromMillis_def)
  from note_changes [of db u T] todo_changes [of db u T] n t show ?thesis by blast
qed

text \<open>
  The notes and todos of user \<open>u1\<close>: with the cursor 999 both notes are returned, the
  soft-deleted one last, and the todo; with the cursor 1000 the rows modified at 1000
  are not.
\<close>

theorem changes_since_exact_witness:
  "GetNoteChangesSince example_DB ''u1'' 999
     = [\<lparr> Note.ID = ''n1'', Note.UserID = ''u1'', Note.Title = ''Milk'', Note.Content = ''eggs'',
          Note.Type = ''note'', Note.ModifiedAt = 1000000000, Note.ModifiedByDevice = ''d1'',
          Note.DeletedAt = None, Note.CreatedAt = 1000000000 \<rparr>,
        \<lparr> Note.ID = ''n3'', Note.UserID = ''u1'', Note.Title = ''Old'', Note.Content = ''gone'',
          Note.Type = ''todo_list'', Note.ModifiedAt = 3000000000, Note.ModifiedByDevice = ''d1'',
          Note.DeletedAt = Some 3000000000, Note.CreatedAt = 500000000 \<rparr>]
   \<and> GetNoteChangesSince example_DB ''u1'' 1000
     = [\<lparr> Note.ID = ''n3'', Note.UserID = ''u1'', Note.Title = ''Old'', Note.Content = ''gone'',
          Note.Type = ''todo_list'', Note.ModifiedAt = 3000000000, Note.ModifiedByDevice = ''d1'',
          Note.DeletedAt = Some 3000000000, Note.CreatedAt = 500000000 \<rparr>]
   \<and> sorted (map Note.ModifiedAt (GetNoteChangesSince example_DB ''u1'' 999))
   \<and> fromMillis 999 < 1000000000
   \<and> GetTodoChangesSince example_DB ''u1'' 999 = [stored_t1]
   \<and> GetTodoChangesSince example_DB ''u1'' 1000 = []
   \<and> fromMillis 999 < Todo.ModifiedAt stored_t1"
proof -
  let ?n1 = "\<lparr> Note.ID = ''n1'', Note.UserID = ''u1'', Note.Title = ''Milk'', Note.Content = ''eggs'',
          Note.Type = ''note'', Note.ModifiedAt = 1000000000, Note.ModifiedByDevice = ''d1'',
          Note.DeletedAt = None, Note.CreatedAt = 1000000000 \<rparr>"
  let ?n3 = "\<lparr> Note.ID = ''n3'', Note.UserID = ''u1'', Note.Title = ''Old'', Note.Content = ''gone'',
          Note.Type = ''todo_list'', Note.ModifiedAt = 3000000000, Note.ModifiedByDevice = ''d1'',
          Note.DeletedAt = Some 3000000000, Note.CreatedAt = 500000000 \<rparr>"
  have a: "GetNoteChangesSince example_DB ''u1'' 999 = [?n1, ?n3]"
    by code_simp
  have b: "GetNoteChangesSince example_DB ''u1'' 1000 = [?n3]"
    by code_simp
  have a': "GetTodoChangesSince example_DB ''u1'' 999 = [stored_t1]"
    by code_simp
  have b': "GetTodoChangesSince example_DB ''u1'' 1000 = []"
    by code_simp
  from changes_since_exact [of example_DB "''u1''" 999]
  have s: "sorted (map Note.ModifiedAt (GetNoteChangesSince example_DB ''u1'' 999))"
    and m: "\<forall>n \<in> set (GetNoteChangesSince example_DB ''u1'' 999). Note.UserID n = ''u1'' \<and> fromMillis 999 < Note.ModifiedAt n"
    and m': "\<forall>t \<in> set (GetTodoChangesSince example_DB ''u1'' 999). Todo.UserID t = ''u1'' \<and> fromMillis 999 < Todo.ModifiedAt t"
    by blast+
  from m have "fromMillis 999 < Note.ModifiedAt ?n1"
    unfolding a by simp
  then have 1: "fromMillis 999 < 1000000000" by simp
  from m' have 2: "fromMillis 999 < Todo.ModifiedAt stored_t1"
    unfolding a' by simp
  from a b s 1 a' b' 2 show ?thesis by blast
qed

section \<open>Tenant isolation\<close>

lemma written_for_refl: "written_for u db db"
  by (simp add: written_for_def list_all_iff)

lemma written_for_trans:
  "written_for u db db' \<Longrightarrow> written_for u db' db'' \<Longrightarrow> written_for u db db''"
  unfolding written_for_def list_all_iff by auto

lemma UpsertNote_written_for:
  assumes "UpsertNote db n = Inr (db', res)"
  shows "written_for (Note.UserID n) db db'"
proof (cases "GetNoteAny db (Note.ID n) (Note.UserID n)")
  case (Inl e)
  with assms have e: "e = ErrNotFound"
    by (auto simp: UpsertNote_def split: db_error.splits)
  with Inl assms have "CreateNote db n = Inr db'"
    by (auto simp: UpsertNote_def split: sum.splits)
  then have "db' = db\<lparr>tbl_notes := tbl_notes db @ [note_values n]\<rparr>"
    by (auto simp: CreateNote_def split: if_splits)
  then show ?thesis
    by (simp add: written_for_def list_all_iff note_values_def)
next
  case (Inr existing)
  define hit :: "note_row \<Rightarrow> bool"
    where "hit = (\<lambda>r. n_id r = Note.ID n \<and> n_user_id r = Note.UserID n)"
  from UpsertNote_existing [OF Inr] assms
  consider "db' = db" | "db' = db\<lparr>tbl_notes := sql_update hit (note_set n) (tbl_notes db)\<rparr>"
    by (auto simp: hit_def split: if_splits)
  then show ?thesis
  proof cases
    case 1
    then show ?thesis by (simp add: written_for_refl)
  next
    case 2
    have "filter (\<lambda>r. n_user_id r \<noteq> Note.UserID n) (sql_update hit (note_set n) (tbl_notes db))
        = filter (\<lambda>r. n_user_id r \<noteq> Note.UserID n) (tbl_notes db)"
      by (rule sql_update_elsewhere) (simp add: hit_def note_set_def)
    moreover have "x \<in> set (tbl_notes db) \<or> n_user_id x = Note.UserID n"
      if "x \<in> set (sql_update hit (note_set n) (tbl_notes db))" for x
      using sql_update_members [OF that] by (auto simp: hit_def note_set_def)
    ultimately show ?thesis
      unfolding 2 by (simp add: written_for_def list_all_iff)
  qed
qed

lemma UpsertTodo_written_for:
  assumes "UpsertTodo db t = Inr (db', res)"
  shows "written_for (Todo.UserID t) db db'"
proof (cases "GetTodoAny db (Todo.ID t) (Todo.UserID t)")
  case (Inl e)
  with assms have e: "e = ErrNotFound"
    by (auto simp: UpsertTodo_def split: db_error.splits)
  with Inl assms have "CreateTodo db t = Inr db'"
    by (auto simp: UpsertTodo_def split: sum.splits)
  then have "db' = db\<lparr>tbl_todos := tbl_todos db @ [todo_values t]\<rparr>"
    by (auto simp: CreateTodo_def split: if_splits)
  then show ?thesis
    by (simp add: written_for_def list_all_iff todo_values_def)
next
  case (Inr existing)
  define hit :: "todo_row \<Rightarrow> bool"
    where "hit = (\<lambda>r. t_id r = Todo.ID t \<and> t_user_id r = Todo.UserID t)"
  from UpsertTodo_existing [OF Inr] assms
  consider "db' = db" | "db' = db\<lparr>tbl_todos := sql_update hit (todo_set t) (tbl_todos db)\<rparr>"
    by (auto simp: hit_def split: if_splits)
  then show ?thesis
  proof cases
    case 1
    then show ?thesis by (simp add: written_for_refl)
  next
    case 2
    have "filter (\<lambda>r. t_user_id r \<noteq> Todo.UserID t) (sql_update hit (todo_set t) (tbl_todos db))
        = filter (\<lambda>r. t_user_id r \<noteq> Todo.UserID t) (tbl_todos db)"
      by (rule sql_update_elsewhere) (simp add: hit_def todo_set_def)
    moreover have "x \<in> set (tbl_todos db) \<or> t_user_id x = Todo.UserID t"
      if "x \<in> set (sql_update hit (todo_set t) (tbl_todos db))" for x
      using sql_update_members [OF that] by (auto simp: hit_def todo_set_def)
    ultimately show ?thesis
      unfolding 2 by (simp add: written_for_def list_all_iff)
  qed
qed

lemma push_notes_written_for:
  "push_notes u ns db cs acc = (db', res) \<Longrightarrow> written_for u db db'"
proof (induction ns arbitrary: db cs acc)
  case Nil
  then show ?case by (simp add: written_for_refl)
next
  case (Cons n ns)
  show ?case
  proof (cases "UpsertNote db (n\<lparr>Note.UserID := u\<rparr>)")
    case (Inl e)
    with Cons.prems show ?thesis by (simp add: written_for_refl)
  next
    case (Inr p)
    obtain db1 sv where p: "p = (db1, sv)" by (cases p)
    from Inr p have 1: "written_for u db db1"
      using UpsertNote_written_for [of db "n\<lparr>Note.UserID := u\<rparr>" db1 sv] by simp
    from Inr p Cons.prems obtain cs' acc' where "push_notes u ns db1 cs' acc' = (db', res)"
      by (cases sv) auto
    then have "written_for u db1 db'" by (rule Cons.IH)
    with 1 show ?thesis by (rule written_for_trans)
  qed
qed

lemma push_todos_written_for:
  "push_todos u ts db cs acc = (db', res) \<Longrightarrow> written_for u db db'"
proof (induction ts arbitrary: db cs acc)
  case Nil
  then show ?case by (simp add: written_for_refl)
next
  case (Cons t ts)
  show ?case
  proof (cases "UpsertTodo db (t\<lparr>Todo.UserID := u\<rparr>)")
    case (Inl e)
    with Cons.prems show ?thesis by (simp add: written_for_refl)
  next
    case (Inr p)
    obtain db1 sv where p: "p = (db1, sv)" by (cases p)
    from Inr p have 1: "written_for u db db1"
      using UpsertTodo_written_for [of db "t\<lparr>Todo.UserID := u\<rparr>" db1 sv] by simp
    from Inr p Cons.prems obtain cs' acc' where "push_todos u ts db1 cs' acc' = (db', res)"
      by (cases sv) auto
    then have "written_for u db1 db'" by (rule Cons.IH)
    with 1 show ?thesis by (rule written_for_trans)
  qed
qed

lemma handleSyncPush_written_for:
  assumes "handleSyncPush w db u body = (db', resp)"
  shows "written_for u db db'"
proof (cases body)
  case None
  with assms show ?thesis by (simp add: handleSyncPush_def written_for_refl)
next
  case (Some req)
  obtain db1 r1 where n: "push_notes u (SyncPushRequest.Notes req) db [] 0 = (db1, r1)"
    by (cases "push_notes u (SyncPushRequest.Notes req) db [] 0")
  then have 1: "written_for u db db1" by (rule push_notes_written_for)
  show ?thesis
  proof (cases r1)
    case None
    with assms Some n have "db' = db1" by (simp add: handleSyncPush_def)
    with 1 show ?thesis by simp
  next
    case (Some p)
    obtain cs1 acc1 where p: "p = (cs1, acc1)" by (cases p)
    obtain db2 r2 where t: "push_todos u (SyncPushRequest.Todos req) db1 cs1 acc1 = (db2, r2)"
      by (cases "push_todos u (SyncPushRequest.Todos req) db1 cs1 acc1")
    then have 2: "written_for u db1 db2" by (rule push_todos_written_for)
    from assms \<open>body = Some req\<close> n Some p t have "db' = db2"
      by (auto simp: handleSyncPush_def split: option.splits)
    with 1 2 show ?thesis using written_for_trans by blast
  qed
qed

lemma push_notes_ignores_UserID:
  "push_notes u (map (\<lambda>n. n\<lparr>Note.UserID := g n\<rparr>) ns) db cs acc = push_notes u ns db cs acc"
  by (induction ns arbitrary: db cs acc) (auto split: sum.splits option.splits)

lemma push_todos_ignores_UserID:
  "push_todos u (map (\<lambda>t. t\<lparr>Todo.UserID := g t\<rparr>) ts) db cs acc = push_todos u ts db cs acc"
  by (induction ts arbitrary: db cs acc) (auto split: sum.splits option.splits)

lemma handleSyncPush_ignores_UserID:
  "handleSyncPush w db u
     (Some (req\<lparr> SyncPushRequest.Notes := map (\<lambda>n. n\<lparr>Note.UserID := g n\<rparr>) (SyncPushRequest.Notes req),
                 SyncPushRequest.Todos := map (\<lambda>t. t\<lparr>Todo.UserID := g' t\<rparr>) (SyncPushRequest.Todos req) \<rparr>))
   = handleSyncPush w db u (Some req)"
  by (simp add: handleSyncPush_def push_notes_ignores_UserID push_todos_ignores_UserID)

lemma foreign_note_not_found:
  assumes "distinct (map n_id (tbl_notes db))" and "r \<in> set (tbl_notes db)" and "n_user_id r \<noteq> u"
  shows "GetNote db (n_id r) u = Inl ErrNotFound \<and> GetNoteAny db (n_id r) u = Inl ErrNotFound"
proof -
  have no: "\<not> (n_id x = n_id r \<and> n_user_id x = u)" if "x \<in> set (tbl_notes db)" for x
    using distinct_column [OF assms(1) that assms(2)] assms(3) by auto
  have "find (\<lambda>x. n_id x = n_id r \<and> n_user_id x = u \<and> n_deleted_at x = None) (tbl_notes db) = None"
    unfolding find_None_iff_no using no by blast
  moreover have "find (\<lambda>x. n_id x = n_id r \<and> n_user_id x = u) (tbl_notes db) = None"
    unfolding find_None_iff_no using no by blast
  ultimately show ?thesis
    by (simp add: GetNote_def GetNoteAny_def)
qed

lemma foreign_todo_not_found:
  assumes "distinct (map t_id (tbl_todos db))" and "r \<in> set (tbl_todos db)" and "t_user_id r \<noteq> u"
  shows "GetTodo db (t_id r) u = Inl ErrNotFound \<and> GetTodoAny db (t_id r) u = Inl ErrNotFound"
proof -
  have no: "\<not> (t_id x = t_id r \<and> t_user_id x = u)" if "x \<in> set (tbl_todos db)" for x
    using distinct_column [OF assms(1) that assms(2)] assms(3) by auto
  have "find (\<lambda>x. t_id x = t_id r \<and> t_user_id x = u \<and> t_deleted_at x = None) (tbl_todos db) = None"
    unfolding find_None_iff_no using no by blast
  moreover have "find (\<lambda>x. t_id x = t_id r \<and> t_user_id x = u) (tbl_todos db) = None"
    unfolding find_None_iff_no using no by blast
  ultimately show ?thesis
    by (simp add: GetTodo_def GetTodoAny_def)
qed

lemma note_reads_scoped:
  "(\<forall>n. GetNote db i u = Inr n \<longrightarrow> Note.UserID n = u)
   \<and> (\<forall>n. GetNoteAny db i u = Inr n \<longrightarrow> Note.UserID n = u)
   \<and> (\<forall>n \<in> set (fst (ListNotes db u l off)). Note.UserID n = u)
   \<and> (\<forall>n \<in> set (fst (SearchNotes db u q l off)). Note.UserID n = u)
   \<and> (\<forall>n \<in> set (GetNoteChangesSince db u T). Note.UserID n = u)"
proof -
  have 1: "Note.UserID n = u" if "GetNote db i u = Inr n" for n
    using got_note [OF that] by auto
  have 2: "Note.UserID n = u" if "GetNoteAny db i u = Inr n" for n
    using got_note_any [OF that] by auto
  have 3: "Note.UserID n = u" if "n \<in> set (fst (ListNotes db u l off))" for n
    using listed_note [OF that] by auto
  have 4: "Note.UserID n = u" if "n \<in> set (fst (SearchNotes db u q l off))" for n
    using searched_note [OF that] by auto
  have 5: "Note.UserID n = u" if "n \<in> set (GetNoteChangesSince db u T)" for n
    using that by (auto simp: GetNoteChangesSince_def)
  from 1 2 3 4 5 show ?thesis by blast
qed

lemma todo_reads_scoped:
  "(\<forall>t. GetTodo db i u = Inr t \<longrightarrow> Todo.UserID t = u)
   \<and> (\<forall>t. GetTodoAny db i u = Inr t \<longrightarrow> Todo.UserID t = u)
   \<and> (\<forall>t \<in> set (fst (ListTodos db u l off)). Todo.UserID t = u)
   \<and> (\<forall>t \<in> set (GetOverdueTodos db clock u). Todo.UserID t = u)
   \<and> (\<forall>t \<in> set (GetTodoChangesSince db u T). Todo.UserID t = u)"
proof -
  have 1: "Todo.UserID t = u" if "GetTodo db i u = Inr t" for t
    using got_todo [OF that] by auto
  have 2: "Todo.UserID t = u" if "GetTodoAny db i u = Inr t" for t
    using got_todo_any [OF that] by auto
  have 3: "Todo.UserID t = u" if "t \<in> set (fst (ListTodos db u l off))" for t
    using listed_todo [OF that] by auto
  have 4: "Todo.UserID t = u" if "t \<in> set (GetOverdueTodos db clock u)" for t
    using overdue_todo [OF that] by auto
  have 5: "Todo.UserID t = u" if "t \<in> set (GetTodoChangesSince db u T)" for t
    using that by (auto simp: GetTodoChangesSince_def)
  from 1 2 3 4 5 show ?thesis by blast
qed

text \<open>
  C3. With \<open>u\<close> as the scoping user, every note or todo that a read operation returns
  (get, get-any, list, search, overdue, changes-since) belongs to \<open>u\<close>, so the record of
  another user is never returned; since ids are the primary key, a get of another user's
  record answers not found. A sync push by \<open>u\<close> writes only rows whose \<open>user_id\<close> is \<open>u\<close>
  and leaves the rows of every other user as they were, and its outcome does not depend
  on the \<open>user_id\<close> fields of the request body.
\<close>

theorem tenant_isolation:
  "(\<forall>n. GetNote db i u = Inr n \<longrightarrow> Note.UserID n = u)
   \<and> (\<forall>n. GetNoteAny db i u = Inr n \<longrightarrow> Note.UserID n = u)
   \<and> (\<forall>n \<in> set (fst (ListNotes db u l off)). Note.UserID n = u)
   \<and> (\<forall>n \<in> set (fst (SearchNotes db u q l off)). Note.UserID n = u)
   \<and> (\<forall>n \<in> set (GetNoteChangesSince db u T). Note.UserID n = u)
   \<and> (\<forall>t. GetTodo db i u = Inr t \<longrightarrow> Todo.UserID t = u)
   \<and> (\<forall>t. GetTodoAny db i u = Inr t \<longrightarrow> Todo.UserID t = u)
   \<and> (\<forall>t \<in> set (fst (ListTodos db u l off)). Todo.UserID t = u)
   \<and> (\<forall>t \<in> set (GetOverdueTodos db clock u). Todo.UserID t = u)
   \<and> (\<forall>t \<in> set (GetTodoChangesSince db u T). Todo.UserID t = u)
   \<and> (distinct (map n_id (tbl_notes db)) \<and> r \<in> set (tbl_notes db) \<and> n_user_id r \<noteq> u \<longrightarrow>
        GetNote db (n_id r) u = Inl ErrNotFound \<and> GetNoteAny db (n_id r) u = Inl ErrNotFound)
   \<and> (distinct (map t_id (tbl_todos db)) \<and> r' \<in> set (tbl_todos db) \<and> t_user_id r' \<noteq> u \<longrightarrow>
        GetTodo db (t_id r') u = Inl ErrNotFound \<and> GetTodoAny db (t_id r') u = Inl ErrNotFound)
   \<and> (handleSyncPush w db u body = (db', resp) \<longrightarrow> written_for u db db')
   \<and> handleSyncPush w db u
        (Some (req\<lparr> SyncPushRequest.Notes :=
                      map (\<lambda>n. n\<lparr>Note.UserID := g n\<rparr>) (SyncPushRequest.Notes req),
                    SyncPushRequest.Todos :=
                      map (\<lambda>t. t\<lparr>Todo.UserID := g' t\<rparr>) (SyncPushRequest.Todos req) \<rparr>))
       = handleSyncPush w db u (Some req)"
  using note_reads_scoped [of db i u l off q T] todo_reads_scoped [of db i u l off clock T]
    foreign_note_not_found [of db r u] foreign_todo_not_found [of db r' u]
    handleSyncPush_written_for [of w db u body db' resp]
    handleSyncPush_ignores_UserID [where w = w and db = db and u = u and req = req and g = g and g' = g']
  by blast

text \<open>
  User \<open>u2\<close> asks for the note \<open>n1\<close> and the todo \<open>t1\<close> of user \<open>u1\<close>, lists, and pushes a
  new note whose body names another user.
\<close>

theorem tenant_isolation_witness:
  "distinct (map n_id (tbl_notes example_DB))
   \<and> GetNote example_DB ''n1'' ''u2'' = Inl ErrNotFound
   \<and> GetNoteAny example_DB ''n1'' ''u2'' = Inl ErrNotFound
   \<and> distinct (map t_id (tbl_todos example_DB))
   \<and> GetTodo example_DB ''t1'' ''u2'' = Inl ErrNotFound
   \<and> GetTodoAny example_DB ''t1'' ''u2'' = Inl ErrNotFound
   \<and> fst (ListNotes example_DB ''u2'' 50 0)
       = [\<lparr> Note.ID = ''n2'', Note.UserID = ''u2'', Note.Title = ''Private'',
            Note.Content = ''secret'', Note.Type = ''note'', Note.ModifiedAt = 2000000000,
            Note.ModifiedByDevice = ''d2'', Note.DeletedAt = None, Note.CreatedAt = 2000000000 \<rparr>]
   \<and> tbl_notes (fst (handleSyncPush (example_world ''x'') example_DB ''u2''
        (Some \<lparr> SyncPushRequest.Notes = [(example_note ''note'' 2000000000)\<lparr>Note.ID := ''n9''\<rparr>],
                 SyncPushRequest.Todos = [], SyncPushRequest.DeviceID = ''d9'' \<rparr>)))
       = tbl_notes example_DB
         @ [\<lparr> n_id = ''n9'', n_user_id = ''u2'', n_title = ''Bread'', n_content = ''rye'',
              n_type = ''note'', n_modified_at = 2000, n_modified_by_device = ''d9'',
              n_deleted_at = Some 2000, n_created_at = 0 \<rparr>]
   \<and> written_for ''u2'' example_DB
        (fst (handleSyncPush (example_world ''x'') example_DB ''u2''
          (Some \<lparr> SyncPushRequest.Notes = [(example_note ''note'' 2000000000)\<lparr>Note.ID := ''n9''\<rparr>],
                   SyncPushRequest.Todos = [], SyncPushRequest.DeviceID = ''d9'' \<rparr>)))"
proof -
  let ?r = "\<lparr> n_id = ''n1'', n_user_id = ''u1'', n_title = ''Milk'', n_content = ''eggs'',
             n_type = ''note'', n_modified_at = 1000, n_modified_by_device = ''d1'',
             n_deleted_at = None, n_created_at = 1000 \<rparr>"
  let ?r' = "\<lparr> t_id = ''t1'', t_user_id = ''u1'', t_note_id = Some ''n1'', t_line_ref = None,
             t_content = ''Buy'', t_due_date = Some 1500, t_completed = False,
             t_modified_at = 1000, t_modified_by_device = ''d1'', t_deleted_at = None,
             t_created_at = 1000 \<rparr>"
  let ?body = "Some \<lparr> SyncPushRequest.Notes = [(example_note ''note'' 2000000000)\<lparr>Note.ID := ''n9''\<rparr>],
                 SyncPushRequest.Todos = [], SyncPushRequest.DeviceID = ''d9'' \<rparr>"
  have d: "distinct (map n_id (tbl_notes example_DB))"
    by code_simp
  have m: "?r \<in> set (tbl_notes example_DB)"
    by code_simp
  have o: "n_user_id ?r \<noteq> ''u2''"
    by code_simp
  have d': "distinct (map t_id (tbl_todos example_DB))"
    by code_simp
  have m': "?r' \<in> set (tbl_todos example_DB)"
    by code_simp
  have o': "t_user_id ?r' \<noteq> ''u2''"
    by code_simp
  have l: "fst (ListNotes example_DB ''u2'' 50 0)
       = [\<lparr> Note.ID = ''n2'', Note.UserID = ''u2'', Note.Title = ''Private'',
            Note.Content = ''secret'', Note.Type = ''note'', Note.ModifiedAt = 2000000000,
            Note.ModifiedByDevice = ''d2'', Note.DeletedAt = None, Note.CreatedAt = 2000000000 \<rparr>]"
    by code_simp
  have p: "tbl_notes (fst (handleSyncPush (example_world ''x'') example_DB ''u2'' ?body))
       = tbl_notes example_DB
         @ [\<lparr> n_id = ''n9'', n_user_id = ''u2'', n_title = ''Bread'', n_content = ''rye'',
              n_type = ''note'', n_modified_at = 2000, n_modified_by_device = ''d9'',
              n_deleted_at = Some 2000, n_created_at = 0 \<rparr>]"
    by code_simp
  have e: "handleSyncPush (example_world ''x'') example_DB ''u2'' ?body
      = (fst (handleSyncPush (example_world ''x'') example_DB ''u2'' ?body),
         snd (handleSyncPush (example_world ''x'') example_DB ''u2'' ?body))"
    by simp
  note t = tenant_isolation [where db = example_DB and u = "''u2''" and r = ?r and r' = ?r'
      and w = "example_world ''x''" and body = ?body
      and db' = "fst (handleSyncPush (example_world ''x'') example_DB ''u2'' ?body)"
      and resp = "snd (handleSyncPush (example_world ''x'') example_DB ''u2'' ?body)"]
  from t d m o have "GetNote example_DB (n_id ?r) ''u2'' = Inl ErrNotFound
      \<and> GetNoteAny example_DB (n_id ?r) ''u2'' = Inl ErrNotFound"
    by blast
  then have g: "GetNote example_DB ''n1'' ''u2'' = Inl ErrNotFound
      \<and> GetNoteAny example_DB ''n1'' ''u2'' = Inl ErrNotFound"
    by simp
  from t d' m' o' have "GetTodo example_DB (t_id ?r') ''u2'' = Inl ErrNotFound
      \<and> GetTodoAny example_DB (t_id ?r') ''u2'' = Inl ErrNotFound"
    by blast
  then have g': "GetTodo example_DB ''t1'' ''u2'' = Inl ErrNotFound
      \<and> GetTodoAny example_DB ''t1'' ''u2'' = Inl ErrNotFound"
    by simp
  from t e have "written_for ''u2'' example_DB
        (fst (handleSyncPush (example_world ''x'') example_DB ''u2'' ?body))"
    by blast
  with d g d' g' l p show ?thesis by blast
qed

section \<open>Refresh token rotation\<close>

lemma handleRefresh_ok:
  assumes "handleRefresh a w db (Some req) = (db', writeJSON 200 resp)"
  obtains userID tokenID deviceID stored user
  where "RefreshRequest.RefreshToken req \<noteq> []"
    and "parseRefreshToken a (time_Now w 0) (RefreshRequest.RefreshToken req) = Some (userID, tokenID, deviceID)"
    and "GetRefreshTokenByHash db (HashToken a (RefreshRequest.RefreshToken req)) = Inr stored"
    and "RefreshToken.ID stored = tokenID" and "RefreshToken.UserID stored = userID"
    and "GetUserByID (db\<lparr>tbl_refresh_tokens :=
             filter (\<lambda>r. rt_id r \<noteq> RefreshToken.ID stored) (tbl_refresh_tokens db)\<rparr>) userID = Inr user"
    and "issueTokenPair a w (db\<lparr>tbl_refresh_tokens :=
             filter (\<lambda>r. rt_id r \<noteq> RefreshToken.ID stored) (tbl_refresh_tokens db)\<rparr>) user deviceID
           = Inr (db', resp)"
  using assms
  by (auto simp: handleRefresh_def Let_def DeleteRefreshToken_def
      split: option.splits sum.splits if_splits prod.splits db_error.splits)

lemma issueTokenPair_ok:
  assumes "issueTokenPair a w db user deviceID = Inr (db', resp)"
  shows "issueRefreshToken a (time_Now w 2) (NewID w) (User.ID user) deviceID
           = Some (AuthResponse.RefreshToken resp)
     \<and> NewID w \<notin> set (map rt_id (tbl_refresh_tokens db))
     \<and> (\<exists>row. tbl_refresh_tokens db' = tbl_refresh_tokens db @ [row]
           \<and> rt_id row = NewID w \<and> rt_user_id row = User.ID user
           \<and> rt_device_id row = deviceID
           \<and> rt_token_hash row = HashToken a (AuthResponse.RefreshToken resp))
     \<and> tbl_users db' = tbl_users db \<and> tbl_notes db' = tbl_notes db \<and> tbl_todos db' = tbl_todos db"
  using assms
  by (auto simp: issueTokenPair_def Let_def CreateRefreshToken_def token_values_def
      split: option.splits sum.splits if_splits)

lemma refresh_rotates:
  assumes ok: "handleRefresh a w db (Some req) = (db', writeJSON 200 resp)"
    and uniq: "length (filter (\<lambda>r. rt_token_hash r = HashToken a (RefreshRequest.RefreshToken req))
                         (tbl_refresh_tokens db)) \<le> 1"
    and fresh: "HashToken a (AuthResponse.RefreshToken resp)
                  \<noteq> HashToken a (RefreshRequest.RefreshToken req)"
  shows "\<exists>stored row.
       GetRefreshTokenByHash db (HashToken a (RefreshRequest.RefreshToken req)) = Inr stored
     \<and> tbl_refresh_tokens db'
         = filter (\<lambda>r. rt_id r \<noteq> RefreshToken.ID stored) (tbl_refresh_tokens db) @ [row]
     \<and> rt_id row = NewID w
     \<and> NewID w \<notin> set (map rt_id (filter (\<lambda>r. rt_id r \<noteq> RefreshToken.ID stored) (tbl_refresh_tokens db)))
     \<and> rt_user_id row = RefreshToken.UserID stored
     \<and> rt_token_hash row = HashToken a (AuthResponse.RefreshToken resp)
     \<and> issueRefreshToken a (time_Now w 2) (NewID w) (RefreshToken.UserID stored) (rt_device_id row)
         = Some (AuthResponse.RefreshToken resp)
     \<and> GetRefreshTokenByHash db' (HashToken a (RefreshRequest.RefreshToken req)) = Inl ErrNotFound"
proof -
  let ?h = "HashToken a (RefreshRequest.RefreshToken req)"
  from ok obtain userID tokenID deviceID stored user
    where st: "GetRefreshTokenByHash db ?h = Inr stored"
      and uid: "RefreshToken.UserID stored = userID"
      and usr: "GetUserByID (db\<lparr>tbl_refresh_tokens :=
             filter (\<lambda>r. rt_id r \<noteq> RefreshToken.ID stored) (tbl_refresh_tokens db)\<rparr>) userID = Inr user"
      and iss: "issueTokenPair a w (db\<lparr>tbl_refresh_tokens :=
             filter (\<lambda>r. rt_id r \<noteq> RefreshToken.ID stored) (tbl_refresh_tokens db)\<rparr>) user deviceID
           = Inr (db', resp)"
    by (rule handleRefresh_ok)
  let ?kept = "filter (\<lambda>r. rt_id r \<noteq> RefreshToken.ID stored) (tbl_refresh_tokens db)"
  have kept: "tbl_refresh_tokens (db\<lparr>tbl_refresh_tokens := ?kept\<rparr>) = ?kept"
    by simp
  from usr have uu: "User.ID user = userID"
    using find_Some_in [of "\<lambda>r. u_id r = userID" "tbl_users db"]
    by (auto simp: GetUserByID_def scanUser_def split: option.splits)
  from issueTokenPair_ok [OF iss] obtain row
    where tok: "issueRefreshToken a (time_Now w 2) (NewID w) (User.ID user) deviceID
                 = Some (AuthResponse.RefreshToken resp)"
      and new: "NewID w \<notin> set (map rt_id ?kept)"
      and tbl: "tbl_refresh_tokens db' = ?kept @ [row]"
      and row: "rt_id row = NewID w" "rt_user_id row = User.ID user" "rt_device_id row = deviceID"
        "rt_token_hash row = HashToken a (AuthResponse.RefreshToken resp)"
    unfolding kept by blast
  from st obtain r0
    where r0: "find (\<lambda>r. rt_token_hash r = ?h) (tbl_refresh_tokens db) = Some r0"
      and s0: "stored = scanRefreshToken r0"
    by (auto simp: GetRefreshTokenByHash_def split: option.splits)
  from r0 have r0in: "r0 \<in> set (tbl_refresh_tokens db)" and r0h: "rt_token_hash r0 = ?h"
    using find_Some_in [of "\<lambda>r. rt_token_hash r = ?h" "tbl_refresh_tokens db" r0] by auto
  have id0: "RefreshToken.ID stored = rt_id r0"
    by (simp add: s0 scanRefreshToken_def)
  have "rt_token_hash x \<noteq> ?h" if "x \<in> set ?kept" for x
  proof
    assume "rt_token_hash x = ?h"
    with that r0in r0h uniq have "x = r0"
      using filter_at_most_one [of "\<lambda>r. rt_token_hash r = ?h" "tbl_refresh_tokens db" x r0] by simp
    with that id0 show False by simp
  qed
  moreover have "rt_token_hash row \<noteq> ?h"
    using fresh row(4) by simp
  ultimately have "find (\<lambda>r. rt_token_hash r = ?h) (tbl_refresh_tokens db') = None"
    unfolding tbl find_None_iff_no by auto
  then have gone: "GetRefreshTokenByHash db' ?h = Inl ErrNotFound"
    by (simp add: GetRefreshTokenByHash_def)
  from st tbl row new tok gone uu uid show ?thesis by auto
qed

lemma refresh_revoked:
  assumes "GetRefreshTokenByHash db (HashToken a (RefreshRequest.RefreshToken req)) = Inl ErrNotFound"
    and "RefreshRequest.RefreshToken req \<noteq> []"
  shows "handleRefresh a w db (Some req) = (db, writeError 401 ''invalid refresh token'')
       \<or> handleRefresh a w db (Some req) = (db, writeError 401 ''refresh token revoked'')"
  using assms by (auto simp: handleRefresh_def split: option.splits)



section \<open>Soft delete\<close>

lemma delete_note:
  assumes "GetNote db i u = Inr n"
  shows "\<exists>db'. DeleteNote db i u t dev = Inr db'
     \<and> GetNote db' i u = Inl ErrNotFound
     \<and> (\<forall>l off. i \<notin> Note.ID ` set (fst (ListNotes db' u l off)))
     \<and> (\<forall>q l off. i \<notin> Note.ID ` set (fst (SearchNotes db' u q l off)))
     \<and> (\<forall>T. T < t \<longrightarrow>
          n\<lparr>Note.ModifiedAt := fromMillis t, Note.ModifiedByDevice := dev,
            Note.DeletedAt := Some (fromMillis t)\<rparr> \<in> set (GetNoteChangesSince db' u T))"
proof -
  define hit :: "note_row \<Rightarrow> bool"
    where "hit = (\<lambda>r. n_id r = i \<and> n_user_id r = u \<and> n_deleted_at r = None)"
  define db' where "db' = db\<lparr>tbl_notes := sql_update hit (note_delete_set t dev) (tbl_notes db)\<rparr>"
  have rows': "tbl_notes db' = sql_update hit (note_delete_set t dev) (tbl_notes db)"
    by (simp add: db'_def)
  from got_note [OF assms] obtain r
    where rin: "r \<in> set (tbl_notes db)" and n: "n = scanNote r" and rhit: "hit r"
    by (auto simp: hit_def)
  then have "filter hit (tbl_notes db) \<noteq> []"
    by (auto simp: filter_empty_conv)
  then have del: "DeleteNote db i u t dev = Inr db'"
    by (simp add: DeleteNote_def Let_def db'_def hit_def)
  have nohit: "\<not> hit (note_delete_set t dev x)" for x
    by (simp add: hit_def note_delete_set_def)
  have gone: "x \<in> set (tbl_notes db') \<Longrightarrow> \<not> hit x" for x
    unfolding rows' using nohit by (rule sql_update_not_hit)
  have "find hit (tbl_notes db') = None"
    unfolding rows' using nohit by (rule find_sql_update_none)
  then have get: "GetNote db' i u = Inl ErrNotFound"
    by (simp add: GetNote_def hit_def)
  have lst: "i \<notin> Note.ID ` set (fst (ListNotes db' u l off))" for l off
  proof
    assume "i \<in> Note.ID ` set (fst (ListNotes db' u l off))"
    then obtain m where "m \<in> set (fst (ListNotes db' u l off))" "Note.ID m = i" by auto
    with listed_note [of m db' u l off] obtain x where "x \<in> set (tbl_notes db')" "hit x"
      by (auto simp: hit_def)
    with gone show False by blast
  qed
  have srch: "i \<notin> Note.ID ` set (fst (SearchNotes db' u q l off))" for q l off
  proof
    assume "i \<in> Note.ID ` set (fst (SearchNotes db' u q l off))"
    then obtain m where "m \<in> set (fst (SearchNotes db' u q l off))" "Note.ID m = i" by auto
    with searched_note [of m db' u q l off] obtain x where "x \<in> set (tbl_notes db')" "hit x"
      by (auto simp: hit_def)
    with gone show False by blast
  qed
  have "note_delete_set t dev r \<in> set (tbl_notes db')"
    unfolding rows' using rin rhit by (rule in_sql_update)
  moreover have "n_user_id (note_delete_set t dev r) = u" "n_modified_at (note_delete_set t dev r) = t"
    using rhit by (simp_all add: hit_def note_delete_set_def)
  ultimately have chg: "T < t \<Longrightarrow> scanNote (note_delete_set t dev r) \<in> set (GetNoteChangesSince db' u T)" for T
    using changed_note [of "note_delete_set t dev r" db' u T] by simp
  have "scanNote (note_delete_set t dev r) = n\<lparr>Note.ModifiedAt := fromMillis t, Note.ModifiedByDevice := dev,
            Note.DeletedAt := Some (fromMillis t)\<rparr>"
    by (simp add: n scanNote_def fromNullMillis_def note_delete_set_def)
  with chg have chg': "T < t \<Longrightarrow> n\<lparr>Note.ModifiedAt := fromMillis t, Note.ModifiedByDevice := dev,
            Note.DeletedAt := Some (fromMillis t)\<rparr> \<in> set (GetNoteChangesSince db' u T)" for T
    by simp
  from del get lst srch chg' show ?thesis by blast
qed

lemma delete_todo:
  assumes "GetTodo db i u = Inr n"
  shows "\<exists>db'. DeleteTodo db i u t dev = Inr db'
     \<and> GetTodo db' i u = Inl ErrNotFound
     \<and> (\<forall>l off. i \<notin> Todo.ID ` set (fst (ListTodos db' u l off)))
     \<and> (\<forall>clock. i \<notin> Todo.ID ` set (GetOverdueTodos db' clock u))
     \<and> (\<forall>T. T < t \<longrightarrow>
          n\<lparr>Todo.ModifiedAt := fromMillis t, Todo.ModifiedByDevice := dev,
            Todo.DeletedAt := Some (fromMillis t)\<rparr> \<in> set (GetTodoChangesSince db' u T))"
proof -
  define hit :: "todo_row \<Rightarrow> bool"
    where "hit = (\<lambda>r. t_id r = i \<and> t_user_id r = u \<and> t_deleted_at r = None)"
  define db' where "db' = db\<lparr>tbl_todos := sql_update hit (todo_delete_set t dev) (tbl_todos db)\<rparr>"
  have rows': "tbl_todos db' = sql_update hit (todo_delete_set t dev) (tbl_todos db)"
    by (simp add: db'_def)
  from got_todo [OF assms] obtain r
    where rin: "r \<in> set (tbl_todos db)" and n: "n = scanTodo r" and rhit: "hit r"
    by (auto simp: hit_def)
  then have "filter hit (tbl_todos db) \<noteq> []"
    by (auto simp: filter_empty_conv)
  then have del: "DeleteTodo db i u t dev = Inr db'"
    by (simp add: DeleteTodo_def Let_def db'_def hit_def)
  have nohit: "\<not> hit (todo_delete_set t dev x)" for x
    by (simp add: hit_def todo_delete_set_def)
  have gone: "x \<in> set (tbl_todos db') \<Longrightarrow> \<not> hit x" for x
    unfolding rows' using nohit by (rule sql_update_not_hit)
  have "find hit (tbl_todos db') = None"
    unfolding rows' using nohit by (rule find_sql_update_none)
  then have get: "GetTodo db' i u = Inl ErrNotFound"
    by (simp add: GetTodo_def hit_def)
  have lst: "i \<notin> Todo.ID ` set (fst (ListTodos db' u l off))" for l off
  proof
    assume "i \<in> Todo.ID ` set (fst (ListTodos db' u l off))"
    then obtain m where "m \<in> set (fst (ListTodos db' u l off))" "Todo.ID m = i" by auto
    with listed_todo [of m db' u l off] obtain x where "x \<in> set (tbl_todos db')" "hit x"
      by (auto simp: hit_def)
    with gone show False by blast
  qed
  have ovd: "i \<notin> Todo.ID ` set (GetOverdueTodos db' clock u)" for clock
  proof
    assume "i \<in> Todo.ID ` set (GetOverdueTodos db' clock u)"
    then obtain m where "m \<in> set (GetOverdueTodos db' clock u)" "Todo.ID m = i" by auto
    with overdue_todo [of m db' clock u] obtain x where "x \<in> set (tbl_todos db')" "hit x"
      by (auto simp: hit_def)
    with gone show False by blast
  qed
  have "todo_delete_set t dev r \<in> set (tbl_todos db')"
    unfolding rows' using rin rhit by (rule in_sql_update)
  moreover have "t_user_id (todo_delete_set t dev r) = u" "t_modified_at (todo_delete_set t dev r) = t"
    using rhit by (simp_all add: hit_def todo_delete_set_def)
  ultimately have chg: "T < t \<Longrightarrow> scanTodo (todo_delete_set t dev r) \<in> set (GetTodoChangesSince db' u T)" for T
    using changed_todo [of "todo_delete_set t dev r" db' u T] by simp
  have "scanTodo (todo_delete_set t dev r) = n\<lparr>Todo.ModifiedAt := fromMillis t, Todo.ModifiedByDevice := dev,
            Todo.DeletedAt := Some (fromMillis t)\<rparr>"
    by (simp add: n scanTodo_def fromNullMillis_def todo_delete_set_def)
  with chg have chg': "T < t \<Longrightarrow> n\<lparr>Todo.ModifiedAt := fromMillis t, Todo.ModifiedByDevice := dev,
            Todo.DeletedAt := Some (fromMillis t)\<rparr> \<in> set (GetTodoChangesSince db' u T)" for T
    by simp
  from del get lst ovd chg' show ?thesis by blast
qed

text \<open>
  C5. Soft-deleting a visible note or todo succeeds and sets \<open>deleted_at\<close> and
  \<open>modified_at\<close> to the same deletion timestamp \<open>t\<close>; in the resulting state get answers
  not found, list and search (for todos: list and overdue) omit the record, and
  changes-since with any cursor below \<open>t\<close> returns the record with \<open>deleted_at\<close> set.
\<close>

theorem soft_delete_visibility:
  "(GetNote db i u = Inr n \<longrightarrow>
      (\<exists>db'. DeleteNote db i u t dev = Inr db'
         \<and> GetNote db' i u = Inl ErrNotFound
         \<and> (\<forall>l off. i \<notin> Note.ID ` set (fst (ListNotes db' u l off)))
         \<and> (\<forall>q l off. i \<notin> Note.ID ` set (fst (SearchNotes db' u q l off)))
         \<and> (\<forall>T. T < t \<longrightarrow>
              n\<lparr>Note.ModifiedAt := fromMillis t, Note.ModifiedByDevice := dev,
                Note.DeletedAt := Some (fromMillis t)\<rparr> \<in> set (GetNoteChangesSince db' u T))))
   \<and> (GetTodo db i u = Inr n' \<longrightarrow>
      (\<exists>db'. DeleteTodo db i u t dev = Inr db'
         \<and> GetTodo db' i u = Inl ErrNotFound
         \<and> (\<forall>l off. i \<notin> Todo.ID ` set (fst (ListTodos db' u l off)))
         \<and> (\<forall>clock. i \<notin> Todo.ID ` set (GetOverdueTodos db' clock u))
         \<and> (\<forall>T. T < t \<longrightarrow>
              n'\<lparr>Todo.ModifiedAt := fromMillis t, Todo.ModifiedByDevice := dev,
                 Todo.DeletedAt := Some (fromMillis t)\<rparr> \<in> set (GetTodoChangesSince db' u T))))"
  using delete_note [of db i u n t dev] delete_todo [of db i u n' t dev] by blast

text \<open>
  Deleting the note \<open>n1\<close> and the todo \<open>t1\<close> of the example at 5000 ms.
\<close>

theorem soft_delete_visibility_witness:
  "GetNote example_DB ''n1'' ''u1'' = Inr stored_n1
   \<and> (\<exists>db'. DeleteNote example_DB ''n1'' ''u1'' 5000 ''d7'' = Inr db'
         \<and> GetNote db' ''n1'' ''u1'' = Inl ErrNotFound
         \<and> \<lparr> Note.ID = ''n1'', Note.UserID = ''u1'', Note.Title = ''Milk'', Note.Content = ''eggs'',
              Note.Type = ''note'', Note.ModifiedAt = 5000000000, Note.ModifiedByDevice = ''d7'',
              Note.DeletedAt = Some 5000000000, Note.CreatedAt = 1000000000 \<rparr>
             \<in> set (GetNoteChangesSince db' ''u1'' 4999))
   \<and> GetTodo example_DB ''t1'' ''u1'' = Inr stored_t1
   \<and> (\<exists>db'. DeleteTodo example_DB ''t1'' ''u1'' 5000 ''d7'' = Inr db'
         \<and> GetTodo db' ''t1'' ''u1'' = Inl ErrNotFound
         \<and> \<lparr> Todo.ID = ''t1'', Todo.UserID = ''u1'', Todo.NoteID = Some ''n1'',
              Todo.LineRef = None, Todo.Content = ''Buy'', Todo.DueDate = Some 1500000000,
              Todo.Completed = False, Todo.ModifiedAt = 5000000000,
              Todo.ModifiedByDevice = ''d7'', Todo.DeletedAt = Some 5000000000,
              Todo.CreatedAt = 1000000000 \<rparr>
             \<in> set (GetTodoChangesSince db' ''u1'' 4999))"
proof -
  have g: "GetNote example_DB ''n1'' ''u1'' = Inr stored_n1"
    by code_simp
  have g': "GetTodo example_DB ''t1'' ''u1'' = Inr stored_t1"
    by code_simp
  have e: "stored_n1\<lparr>Note.ModifiedAt := fromMillis 5000, Note.ModifiedByDevice := ''d7'',
                Note.DeletedAt := Some (fromMillis 5000)\<rparr>
      = \<lparr> Note.ID = ''n1'', Note.UserID = ''u1'', Note.Title = ''Milk'', Note.Content = ''eggs'',
              Note.Type = ''note'', Note.ModifiedAt = 5000000000, Note.ModifiedByDevice = ''d7'',
              Note.DeletedAt = Some 5000000000, Note.CreatedAt = 1000000000 \<rparr>"
    by (simp add: fromMillis_def stored_n1_def)
  have e': "stored_t1\<lparr>Todo.ModifiedAt := fromMillis 5000, Todo.ModifiedByDevice := ''d7'',
                Todo.DeletedAt := Some (fromMillis 5000)\<rparr>
      = \<lparr> Todo.ID = ''t1'', Todo.UserID = ''u1'', Todo.NoteID = Some ''n1'',
              Todo.LineRef = None, Todo.Content = ''Buy'', Todo.DueDate = Some 1500000000,
              Todo.Completed = False, Todo.ModifiedAt = 5000000000,
              Todo.ModifiedByDevice = ''d7'', Todo.DeletedAt = Some 5000000000,
              Todo.CreatedAt = 1000000000 \<rparr>"
    by (simp add: fromMillis_def stored_t1_def)
  from soft_delete_visibility [of example_DB "''n1''" "''u1''" stored_n1 5000 "''d7''" undefined] g
  obtain db' where "DeleteNote example_DB ''n1'' ''u1'' 5000 ''d7'' = Inr db'"
    and "GetNote db' ''n1'' ''u1'' = Inl ErrNotFound"
    and "\<forall>T. T < 5000 \<longrightarrow>
              stored_n1\<lparr>Note.ModifiedAt := fromMillis 5000, Note.ModifiedByDevice := ''d7'',
                Note.DeletedAt := Some (fromMillis 5000)\<rparr> \<in> set (GetNoteChangesSince db' ''u1'' T)"
    by blast
  then have 1: "\<exists>db'. DeleteNote example_DB ''n1'' ''u1'' 5000 ''d7'' = Inr db'
         \<and> GetNote db' ''n1'' ''u1'' = Inl ErrNotFound
         \<and> \<lparr> Note.ID = ''n1'', Note.UserID = ''u1'', Note.Title = ''Milk'', Note.Content = ''eggs'',
              Note.Type = ''note'', Note.ModifiedAt = 5000000000, Note.ModifiedByDevice = ''d7'',
              Note.DeletedAt = Some 5000000000, Note.CreatedAt = 1000000000 \<rparr>
             \<in> set (GetNoteChangesSince db' ''u1'' 4999)"
    unfolding e by auto
  from soft_delete_visibility [of example_DB "''t1''" "''u1''" undefined 5000 "''d7''" stored_t1] g'
  obtain db'' where "DeleteTodo example_DB ''t1'' ''u1'' 5000 ''d7'' = Inr db''"
    and "GetTodo db'' ''t1'' ''u1'' = Inl ErrNotFound"
    and "\<forall>T. T < 5000 \<longrightarrow>
              stored_t1\<lparr>Todo.ModifiedAt := fromMillis 5000, Todo.ModifiedByDevice := ''d7'',
                Todo.DeletedAt := Some (fromMillis 5000)\<rparr> \<in> set (GetTodoChangesSince db'' ''u1'' T)"
    by blast
  then have 2: "\<exists>db'. DeleteTodo example_DB ''t1'' ''u1'' 5000 ''d7'' = Inr db'
         \<and> GetTodo db' ''t1'' ''u1'' = Inl ErrNotFound
         \<and> \<lparr> Todo.ID = ''t1'', Todo.UserID = ''u1'', Todo.NoteID = Some ''n1'',
              Todo.LineRef = None, Todo.Content = ''Buy'', Todo.DueDate = Some 1500000000,
              Todo.Completed = False, Todo.ModifiedAt = 5000000000,
              Todo.ModifiedByDevice = ''d7'', Todo.DeletedAt = Some 5000000000,
              Todo.CreatedAt = 1000000000 \<rparr>
             \<in> set (GetTodoChangesSince db' ''u1'' 4999)"
    unfolding e' by auto
  from g g' 1 2 show ?thesis by blast
qed

section \<open>Search\<close>

lemma length_skip_char: "length (skip_char (c # cs)) \<le> length cs"
  by (simp add: skip_char_def length_dropWhile_le)

lemma patternCompare_percent: "patternCompare ''%'' s"
proof (induction "length s" arbitrary: s rule: less_induct)
  case less
  show ?case
  proof (cases s)
    case Nil
    then show ?thesis by simp
  next
    case (Cons c cs)
    have "length (skip_char (c # cs)) < length s"
      using length_skip_char [of c cs] Cons by simp
    then have "patternCompare ''%'' (skip_char (c # cs))" by (rule less)
    with Cons show ?thesis by simp
  qed
qed

lemma patternCompare_literal:
  assumes "list_all (\<lambda>c. c \<noteq> CHR ''%'' \<and> c \<noteq> CHR ''_'') q"
  shows "patternCompare (q @ ''%'') s = HasPrefix (map lower s) (map lower q)"
  using assms
proof (induction q arbitrary: s)
  case Nil
  then show ?case by (simp add: patternCompare_percent)
next
  case (Cons p ps)
  then show ?case by (cases s) auto
qed

lemma byte_lower_ascii: "byte c < 0x80 \<Longrightarrow> byte (lower c) < 0x80"
  by (auto simp: lower_def byte_def)

lemma lower_high: "0x80 \<le> byte c \<Longrightarrow> lower c = c"
  by (simp add: lower_def)

lemma Contains_skip_continuation:
  assumes "byte q0 < 0x80"
  shows "Contains (map lower (dropWhile (\<lambda>b. 0x80 \<le> byte b \<and> byte b < 0xC0) cs)) (q0 # qs)
       = Contains (map lower cs) (q0 # qs)"
proof (induction cs)
  case Nil
  then show ?case by simp
next
  case (Cons x xs)
  show ?case
  proof (cases "0x80 \<le> byte x \<and> byte x < 0xC0")
    case True
    then have "lower x \<noteq> q0" using assms lower_high [of x] by auto
    with True Cons show ?thesis by simp
  next
    case False
    then have "dropWhile (\<lambda>b. 0x80 \<le> byte b \<and> byte b < 0xC0) (x # xs) = x # xs"
      by auto
    then show ?thesis by (simp only:)
  qed
qed

lemma Contains_skip_char:
  assumes "byte q0 < 0x80"
  shows "Contains (map lower (skip_char (c # cs))) (q0 # qs) = Contains (map lower cs) (q0 # qs)"
  using Contains_skip_continuation [OF assms] by (simp add: skip_char_def)

lemma patternCompare_search:
  assumes "plain_query q"
  shows "patternCompare (CHR ''%'' # q @ ''%'') s = Contains (map lower s) (map lower q)"
proof -
  from assms obtain q0 qs where q: "q = q0 # qs" and q0: "byte q0 < 0x80"
    by (cases q) (auto simp: plain_query_def)
  from assms have lit: "list_all (\<lambda>c. c \<noteq> CHR ''%'' \<and> c \<noteq> CHR ''_'') q"
    by (auto simp: plain_query_def list_all_iff)
  have l0: "byte (lower q0) < 0x80" using q0 by (rule byte_lower_ascii)
  show ?thesis
  proof (induction "length s" arbitrary: s rule: less_induct)
    case less
    show ?case
    proof (cases s)
      case Nil
      then show ?thesis using patternCompare_literal [OF lit, of "[]"] by simp
    next
      case (Cons c cs)
      have "length (skip_char (c # cs)) < length s"
        using length_skip_char [of c cs] Cons by simp
      then have ih: "patternCompare (CHR ''%'' # q @ ''%'') (skip_char (c # cs))
          = Contains (map lower (skip_char (c # cs))) (map lower q)"
        by (rule less)
      have "Contains (map lower (skip_char (c # cs))) (map lower q) = Contains (map lower cs) (map lower q)"
        unfolding q using Contains_skip_char [OF l0] by simp
      with ih Cons patternCompare_literal [OF lit, of "c # cs"] show ?thesis by simp
    qed
  qed
qed

lemma cstr_plain:
  assumes "plain_query q"
  shows "cstr (''%'' @ q @ ''%'') = ''%'' @ q @ ''%''"
proof -
  from assms have "\<forall>c \<in> set q. byte c \<noteq> 0"
    by (auto simp: plain_query_def list_all_iff)
  moreover have "byte (CHR ''%'') \<noteq> 0" by (simp add: byte_def)
  ultimately have "\<forall>c \<in> set (''%'' @ q @ ''%''). byte c \<noteq> 0" by auto
  then show ?thesis unfolding cstr_def by (simp only: takeWhile_eq_all_conv)
qed

lemma LIKE_plain:
  assumes "plain_query q"
  shows "LIKE s (''%'' @ q @ ''%'') = contains_nocase s q"
  using patternCompare_search [OF assms, of "cstr s"] cstr_plain [OF assms]
  by (simp add: LIKE_def contains_nocase_def)

lemma search_result:
  "\<exists>M. SearchNotes db u q l off = (map scanNote (limit_offset l off M), int (length M))
      \<and> mset M = mset (filter (\<lambda>r. n_user_id r = u \<and> n_deleted_at r = None
                            \<and> (LIKE (n_title r) (''%'' @ q @ ''%'')
                                \<or> LIKE (n_content r) (''%'' @ q @ ''%'')))
                        (tbl_notes db))
      \<and> sorted (rev (map n_modified_at M))"
proof -
  let ?rows = "filter (\<lambda>r. n_user_id r = u \<and> n_deleted_at r = None
                            \<and> (LIKE (n_title r) (''%'' @ q @ ''%'')
                                \<or> LIKE (n_content r) (''%'' @ q @ ''%'')))
                        (tbl_notes db)"
  let ?M = "order_desc n_modified_at ?rows"
  have "SearchNotes db u q l off = (map scanNote (limit_offset l off ?M), int (length ?M))"
    by (simp add: SearchNotes_def Let_def order_desc_def)
  moreover have "mset ?M = mset ?rows" by simp
  moreover have "sorted (rev (map n_modified_at ?M))" by (rule sorted_order_desc)
  ultimately show ?thesis by blast
qed




section \<open>Registration\<close>

lemma RuneCountInString_le: "RuneCountInString s \<le> length s"
proof (induction s rule: RuneCountInString.induct)
  case 1
  then show ?case by simp
next
  case (2 c rest)
  have "length (drop (rune_width c rest - 1) rest) \<le> length rest" by simp
  with 2 show ?case by simp
qed

text \<open>
  C7. The claim: an email is accepted only if it contains exactly one \<open>@\<close>, and an email
  with more than one \<open>@\<close> is rejected with a bad request. The comment above
  \<open>isValidEmail\<close> promises "exactly one @" as well, but the function only looks at the
  first one: the address \<open>a@b@c.d\<close> passes it, and the registration goes through to the
  store and answers 201.
\<close>

theorem register_accepts_two_ats:
  "isValidEmail ''a@b@c.d''
   \<and> handleRegister example_API (example_world ''id1'') empty_DB
        (Some \<lparr> Email = ''a@b@c.d'', Password = ''pass1234'', DisplayName = ''A'' \<rparr>)
     = (\<lparr> tbl_users =
            [\<lparr> u_id = ''id1'', u_email = ''a@b@c.d'', u_password_hash = ''bcrypt:pass1234'',
                u_display_name = ''A'', u_created_at = 1700000000123 \<rparr>],
          tbl_notes = [], tbl_todos = [], tbl_refresh_tokens = [] \<rparr>,
        writeJSON 201
          \<lparr> User.ID = ''id1'', User.Email = ''a@b@c.d'', User.PasswordHash = ''bcrypt:pass1234'',
            User.DisplayName = ''A'', User.CreatedAt = 1700000000123000000 \<rparr>)"
  by code_simp

text \<open>
  C8, as the claim states it, fails: a password of four two-byte characters is 8 bytes
  long, within 8 to 72 bytes, and is rejected as too short, because the lower bound
  counts characters.
\<close>

theorem password_eight_bytes_rejected:
  "length [CHR 0xC3, CHR 0xA9, CHR 0xC3, CHR 0xA9, CHR 0xC3, CHR 0xA9, CHR 0xC3, CHR 0xA9] = 8
   \<and> handleRegister example_API (example_world ''id1'') empty_DB
        (Some \<lparr> Email = ''a@b.co'',
                 Password = [CHR 0xC3, CHR 0xA9, CHR 0xC3, CHR 0xA9, CHR 0xC3, CHR 0xA9, CHR 0xC3, CHR 0xA9],
                 DisplayName = ''A'' \<rparr>)
     = (empty_DB, writeError 400 ''password must be at least 8 characters'')"
  by code_simp

text \<open>
  C8, amended. For every registration request the password is accepted only if it has
  at least 8 characters (runes) and at most 72 bytes: a password of fewer than 8
  characters, or of more than 72 bytes, is rejected with a bad request; so is, in
  particular, every password shorter than 8 bytes; and a password of at least 8
  characters and at most 72 bytes is not rejected for its length.
\<close>

theorem register_password_length:
  "(RuneCountInString (Password req) < 8 \<or> 72 < length (Password req)
      \<longrightarrow> status (snd (handleRegister a w db (Some req))) = 400)
   \<and> (length (Password req) < 8 \<longrightarrow> status (snd (handleRegister a w db (Some req))) = 400)
   \<and> (8 \<le> RuneCountInString (Password req) \<and> length (Password req) \<le> 72
      \<longrightarrow> snd (handleRegister a w db (Some req))
            \<noteq> writeError 400 ''password must be at least 8 characters''
        \<and> snd (handleRegister a w db (Some req)) \<noteq> writeError 400 ''password too long'')"
proof -
  have 1: "RuneCountInString (Password req) < 8 \<or> 72 < length (Password req)
      \<Longrightarrow> status (snd (handleRegister a w db (Some req))) = 400"
    by (auto simp: handleRegister_def Let_def minPasswordLen_def maxPasswordLen_def)
  have 2: "length (Password req) < 8 \<Longrightarrow> RuneCountInString (Password req) < 8"
    using RuneCountInString_le [of "Password req"] by simp
  have 3: "8 \<le> RuneCountInString (Password req) \<and> length (Password req) \<le> 72
      \<Longrightarrow> snd (handleRegister a w db (Some req))
            \<noteq> writeError 400 ''password must be at least 8 characters''
        \<and> snd (handleRegister a w db (Some req)) \<noteq> writeError 400 ''password too long''"
    by (auto simp: handleRegister_def Let_def minPasswordLen_def maxPasswordLen_def
        split: option.splits sum.splits db_error.splits)
  from 1 2 3 show ?thesis by blast
qed

text \<open>
  A password of 7 bytes, one of 73 bytes, and one of 8 ASCII characters.
\<close>

theorem register_password_length_witness:
  "length ''short12'' < 8
   \<and> status (snd (handleRegister example_API (example_world ''id1'') empty_DB
        (Some \<lparr> Email = ''a@b.co'', Password = ''short12'', DisplayName = ''A'' \<rparr>))) = 400
   \<and> 72 < length (replicate 73 CHR ''a'')
   \<and> status (snd (handleRegister example_API (example_world ''id1'') empty_DB
        (Some \<lparr> Email = ''a@b.co'', Password = replicate 73 CHR ''a'', DisplayName = ''A'' \<rparr>))) = 400
   \<and> 8 \<le> RuneCountInString ''pass1234'' \<and> length ''pass1234'' \<le> 72
   \<and> snd (handleRegister example_API (example_world ''id1'') empty_DB
        (Some \<lparr> Email = ''a@b.co'', Password = ''pass1234'', DisplayName = ''A'' \<rparr>))
      \<noteq> writeError 400 ''password must be at least 8 characters''"
proof -
  have short: "length (Password \<lparr> Email = ''a@b.co'', Password = ''short12'', DisplayName = ''A'' \<rparr>) < 8"
    by simp
  have long: "72 < length (Password \<lparr> Email = ''a@b.co'', Password = replicate 73 CHR ''a'', DisplayName = ''A'' \<rparr>)"
    by simp
  have good: "8 \<le> RuneCountInString (Password \<lparr> Email = ''a@b.co'', Password = ''pass1234'', DisplayName = ''A'' \<rparr>)
      \<and> length (Password \<lparr> Email = ''a@b.co'', Password = ''pass1234'', DisplayName = ''A'' \<rparr>) \<le> 72"
    by code_simp
  from short long good
    register_password_length [of "\<lparr> Email = ''a@b.co'', Password = ''short12'', DisplayName = ''A'' \<rparr>"
      example_API "example_world ''id1''" empty_DB]
    register_password_length [of "\<lparr> Email = ''a@b.co'', Password = replicate 73 CHR ''a'', DisplayName = ''A'' \<rparr>"
      example_API "example_world ''id1''" empty_DB]
    register_password_length [of "\<lparr> Email = ''a@b.co'', Password = ''pass1234'', DisplayName = ''A'' \<rparr>"
      example_API "example_world ''id1''" empty_DB]
  show ?thesis by simp
qed

section \<open>Pagination\<close>

lemma Atoi_Nil: "Atoi [] = None"
  by (simp add: Atoi_def)

lemma queryInt_alt:
  "queryInt q key def =
     (case Atoi (Get q key) of None \<Rightarrow> def | Some v \<Rightarrow> if v < 0 then def else v)"
  by (simp add: queryInt_def Let_def Atoi_Nil)

lemma clamp_limit:
  "(if 200 < queryInt q ''limit'' 50 then 200 else queryInt q ''limit'' 50)
     = page_limit (Get q ''limit'')"
  by (simp add: queryInt_alt page_limit_def split: option.splits)

lemma offset_eq: "queryInt q ''offset'' 0 = page_offset (Get q ''offset'')"
  by (simp add: queryInt_alt page_offset_def split: option.splits)

lemma page_limit_range: "0 \<le> page_limit s \<and> page_limit s \<le> 200"
  by (simp add: page_limit_def split: option.splits)

lemma page_offset_range: "0 \<le> page_offset s"
  by (simp add: page_offset_def split: option.splits)




end
